theory Spec2Isabelle
  imports Complex_Main "HOL-Library.Word"
begin

section \<open>JavaScript strings and values\<close>

text \<open>
  A JavaScript string is a sequence of UTF-16 code units. String literals of the source are
  written with \<open>jstr\<close>, which maps each (Basic Latin) character to its code unit.
\<close>

type_synonym jschar = "16 word"
type_synonym jsstring = "jschar list"

definition jstr :: "string \<Rightarrow> jsstring" where
  "jstr s = map of_char s"

text \<open>
  The values that \<open>JSON.parse\<close> and the object literals of the source produce. An object is
  the list of its own properties in creation order (the host enumerates integer-like keys
  first; the code reads properties by name only). A Number is modelled by the rational
  it denotes (the host keeps the nearest double; the numerals used below, and their
  comparison with 0 and 1, are not affected).
\<close>

datatype jsvalue =
    JUndefined
  | JNull
  | JBool bool
  | JNumber rat
  | JString jsstring
  | JArray "jsvalue list"
  | JObject "(jsstring \<times> jsvalue) list"

text \<open>
  Thrown values. Every failure of the code and of its collaborators is an \<open>Error\<close>
  object (or one of its built-in subclasses) carrying a \<open>message\<close>.
\<close>

datatype jserror =
    Error (message: jsstring)
  | TypeError (message: jsstring)
  | SyntaxError (message: jsstring)

subsection \<open>Whitespace, trimming, upper-casing\<close>

text \<open>
  \<open>isWhiteSpace\<close> is the class \<open>\s\<close> of regular expressions, which is also what
  \<open>String.prototype.trim\<close> strips: WhiteSpace and LineTerminator code points.
\<close>

definition isWhiteSpace :: "jschar \<Rightarrow> bool" where
  "isWhiteSpace c \<longleftrightarrow>
     c = 0x09 \<or> c = 0x0A \<or> c = 0x0B \<or> c = 0x0C \<or> c = 0x0D \<or> c = 0x20 \<or> c = 0xA0
     \<or> c = 0x1680 \<or> (0x2000 \<le> c \<and> c \<le> 0x200A) \<or> c = 0x2028 \<or> c = 0x2029
     \<or> c = 0x202F \<or> c = 0x205F \<or> c = 0x3000 \<or> c = 0xFEFF"

definition trim :: "jsstring \<Rightarrow> jsstring" where
  "trim s = rev (dropWhile isWhiteSpace (rev (dropWhile isWhiteSpace s)))"

definition upperBasicLatin :: "jschar \<Rightarrow> jschar" where
  "upperBasicLatin c = (if 0x61 \<le> c \<and> c \<le> 0x7A then c - 0x20 else c)"

text \<open>
  \<open>String.prototype.toUpperCase\<close>. On a string of Basic Latin code units it maps
  \<open>a\<close>..\<open>z\<close> to \<open>A\<close>..\<open>Z\<close> and nothing else. On any other string the result is given by
  the Unicode case-mapping tables of the host, which are the parameter \<open>U\<close>.
\<close>

definition toUpperCase :: "(jsstring \<Rightarrow> jsstring) \<Rightarrow> jsstring \<Rightarrow> jsstring" where
  "toUpperCase U s = (if list_all (\<lambda>c. c < 0x80) s then map upperBasicLatin s else U s)"

subsection \<open>Property reads, \<open>typeof\<close>, truthiness\<close>

text \<open>
  \<open>getProp v k\<close> is the read \<open>v.k\<close> for a property name \<open>k\<close> that no built-in prototype
  defines (the source reads \<open>answer\<close>, \<open>confidence\<close>, \<open>sourcesUsed\<close>, \<open>relevantDocs\<close> and
  \<open>type\<close>): an own property of an object, \<open>undefined\<close> on every other value, and a
  TypeError on \<open>null\<close> and \<open>undefined\<close>.
\<close>

fun getProp :: "jsvalue \<Rightarrow> jsstring \<Rightarrow> jserror + jsvalue" where
  "getProp JUndefined k =
     Inl (TypeError (jstr ''Cannot read properties of undefined (reading '' @ k @ jstr '')''))"
| "getProp JNull k =
     Inl (TypeError (jstr ''Cannot read properties of null (reading '' @ k @ jstr '')''))"
| "getProp (JObject ps) k = Inr (case map_of ps k of None \<Rightarrow> JUndefined | Some v \<Rightarrow> v)"
| "getProp v k = Inr JUndefined"

fun typeof :: "jsvalue \<Rightarrow> jsstring" where
  "typeof JUndefined = jstr ''undefined''"
| "typeof JNull = jstr ''object''"
| "typeof (JBool b) = jstr ''boolean''"
| "typeof (JNumber n) = jstr ''number''"
| "typeof (JString s) = jstr ''string''"
| "typeof (JArray vs) = jstr ''object''"
| "typeof (JObject ps) = jstr ''object''"

fun isArray :: "jsvalue \<Rightarrow> bool" where
  "isArray (JArray vs) = True"
| "isArray v = False"

text \<open>ToBoolean: the falsy values are \<open>undefined\<close>, \<open>null\<close>, \<open>false\<close>, zero and the empty string.\<close>

fun truthy :: "jsvalue \<Rightarrow> bool" where
  "truthy JUndefined = False"
| "truthy JNull = False"
| "truthy (JBool b) = b"
| "truthy (JNumber n) = (n \<noteq> 0)"
| "truthy (JString s) = (s \<noteq> [])"
| "truthy (JArray vs) = True"
| "truthy (JObject ps) = True"

section \<open>\<open>JSON.parse\<close>\<close>

text \<open>
  The JSON grammar of ECMA-404 as \<open>JSON.parse\<close> reads it. \<open>None\<close> is the SyntaxError.
  The value parser is recursive in the nesting of arrays and objects; its first argument
  bounds the number of nested calls, and \<open>JSON_parse\<close> starts it above twice the length
  of the text. Lemma \<open>JSON_parse_fuel\<close> below shows that no text reaches that bound.
\<close>

definition isJSONWhiteSpace :: "jschar \<Rightarrow> bool" where
  "isJSONWhiteSpace c \<longleftrightarrow> c = 0x09 \<or> c = 0x0A \<or> c = 0x0D \<or> c = 0x20"

definition skipWs :: "jsstring \<Rightarrow> jsstring" where
  "skipWs s = dropWhile isJSONWhiteSpace s"

definition isDigit :: "jschar \<Rightarrow> bool" where
  "isDigit c \<longleftrightarrow> 0x30 \<le> c \<and> c \<le> 0x39"

definition hexVal :: "jschar \<Rightarrow> nat option" where
  "hexVal c =
     (if 0x30 \<le> c \<and> c \<le> 0x39 then Some (unat (c - 0x30))
      else if 0x41 \<le> c \<and> c \<le> 0x46 then Some (unat (c - 0x41) + 10)
      else if 0x61 \<le> c \<and> c \<le> 0x66 then Some (unat (c - 0x61) + 10)
      else None)"

definition natOfDigits :: "jsstring \<Rightarrow> nat" where
  "natOfDigits ds = foldl (\<lambda>n c. 10 * n + unat (c - 0x30)) 0 ds"

fun parseStringChars :: "jsstring \<Rightarrow> jsstring \<Rightarrow> (jsstring \<times> jsstring) option" where
  "parseStringChars acc [] = None"
| "parseStringChars acc (c # cs) =
     (if c = 0x22 then Some (rev acc, cs)
      else if c = 0x5C then
        (case cs of
           [] \<Rightarrow> None
         | e # rest \<Rightarrow>
             if e = 0x22 \<or> e = 0x5C \<or> e = 0x2F then parseStringChars (e # acc) rest
             else if e = 0x62 then parseStringChars (0x08 # acc) rest
             else if e = 0x66 then parseStringChars (0x0C # acc) rest
             else if e = 0x6E then parseStringChars (0x0A # acc) rest
             else if e = 0x72 then parseStringChars (0x0D # acc) rest
             else if e = 0x74 then parseStringChars (0x09 # acc) rest
             else if e = 0x75 then
               (case rest of
                  h1 # h2 # h3 # h4 # rest' \<Rightarrow>
                    (case (hexVal h1, hexVal h2, hexVal h3, hexVal h4) of
                       (Some a, Some b, Some c', Some d) \<Rightarrow>
                         parseStringChars (of_nat (((a * 16 + b) * 16 + c') * 16 + d) # acc) rest'
                     | _ \<Rightarrow> None)
                | _ \<Rightarrow> None)
             else None)
      else if c < 0x20 then None
      else parseStringChars (c # acc) cs)"

definition parseNumber :: "jsstring \<Rightarrow> (jsvalue \<times> jsstring) option" where
  "parseNumber s =
     (let neg = (take 1 s = [0x2D]);
          s1 = (if neg then drop 1 s else s);
          ip = takeWhile isDigit s1;
          s2 = dropWhile isDigit s1;
          hasFrac = (take 1 s2 = [0x2E]);
          fp = (if hasFrac then takeWhile isDigit (drop 1 s2) else []);
          s3 = (if hasFrac then dropWhile isDigit (drop 1 s2) else s2);
          hasExp = (take 1 s3 = [0x65] \<or> take 1 s3 = [0x45]);
          s4 = (if hasExp then drop 1 s3 else s3);
          eneg = (hasExp \<and> take 1 s4 = [0x2D]);
          s5 = (if hasExp \<and> (take 1 s4 = [0x2D] \<or> take 1 s4 = [0x2B]) then drop 1 s4 else s4);
          ep = (if hasExp then takeWhile isDigit s5 else []);
          s6 = (if hasExp then dropWhile isDigit s5 else s3);
          mant = (of_nat (natOfDigits (ip @ fp)) :: rat) / 10 ^ length fp;
          val = (if eneg then mant / 10 ^ natOfDigits ep else mant * 10 ^ natOfDigits ep)
      in if ip = [] \<or> (take 1 ip = [0x30] \<and> length ip > 1) then None
         else if hasFrac \<and> fp = [] then None
         else if hasExp \<and> ep = [] then None
         else Some (JNumber (if neg then - val else val), s6))"

text \<open>Defining a property: a repeated key keeps its place and takes the later value.\<close>

fun defineProperty :: "jsstring \<Rightarrow> jsvalue \<Rightarrow> (jsstring \<times> jsvalue) list \<Rightarrow> (jsstring \<times> jsvalue) list" where
  "defineProperty k v [] = [(k, v)]"
| "defineProperty k v ((k', v') # ps) =
     (if k' = k then (k, v) # ps else (k', v') # defineProperty k v ps)"

fun parseValue :: "nat \<Rightarrow> jsstring \<Rightarrow> (jsvalue \<times> jsstring) option"
  and parseElements :: "nat \<Rightarrow> jsvalue list \<Rightarrow> jsstring \<Rightarrow> (jsvalue \<times> jsstring) option"
  and parseMembers :: "nat \<Rightarrow> (jsstring \<times> jsvalue) list \<Rightarrow> jsstring \<Rightarrow> (jsvalue \<times> jsstring) option"
where
  "parseValue 0 s = None"
| "parseValue (Suc n) s =
     (case s of
        [] \<Rightarrow> None
      | c # cs \<Rightarrow>
          if c = 0x7B then
            (case skipWs cs of
               [] \<Rightarrow> None
             | d # ds \<Rightarrow> if d = 0x7D then Some (JObject [], ds) else parseMembers n [] (d # ds))
          else if c = 0x5B then
            (case skipWs cs of
               [] \<Rightarrow> None
             | d # ds \<Rightarrow> if d = 0x5D then Some (JArray [], ds) else parseElements n [] (d # ds))
          else if c = 0x22 then
            (case parseStringChars [] cs of
               None \<Rightarrow> None
             | Some (str, t) \<Rightarrow> Some (JString str, t))
          else if c = 0x2D \<or> isDigit c then parseNumber s
          else if take 4 s = jstr ''true'' then Some (JBool True, drop 4 s)
          else if take 5 s = jstr ''false'' then Some (JBool False, drop 5 s)
          else if take 4 s = jstr ''null'' then Some (JNull, drop 4 s)
          else None)"
| "parseElements 0 acc s = None"
| "parseElements (Suc n) acc s =
     (case parseValue n s of
        None \<Rightarrow> None
      | Some (v, t) \<Rightarrow>
          (case skipWs t of
             [] \<Rightarrow> None
           | d # ds \<Rightarrow>
               if d = 0x2C then parseElements n (v # acc) (skipWs ds)
               else if d = 0x5D then Some (JArray (rev (v # acc)), ds)
               else None))"
| "parseMembers 0 acc s = None"
| "parseMembers (Suc n) acc s =
     (case s of
        [] \<Rightarrow> None
      | q # cs \<Rightarrow>
          if q \<noteq> 0x22 then None
          else
            (case parseStringChars [] cs of
               None \<Rightarrow> None
             | Some (k, t) \<Rightarrow>
                 (case skipWs t of
                    [] \<Rightarrow> None
                  | col # t2 \<Rightarrow>
                      if col \<noteq> 0x3A then None
                      else
                        (case parseValue n (skipWs t2) of
                           None \<Rightarrow> None
                         | Some (v, t3) \<Rightarrow>
                             (case skipWs t3 of
                                [] \<Rightarrow> None
                              | d # ds \<Rightarrow>
                                  if d = 0x2C then parseMembers n (defineProperty k v acc) (skipWs ds)
                                  else if d = 0x7D then Some (JObject (defineProperty k v acc), ds)
                                  else None)))))"

definition JSON_parse :: "jsstring \<Rightarrow> jserror + jsvalue" where
  "JSON_parse text =
     (case parseValue (2 * length text + 2) (skipWs text) of
        None \<Rightarrow> Inl (SyntaxError (jstr ''Unexpected token in JSON''))
      | Some (v, t) \<Rightarrow>
          if skipWs t = [] then Inr v
          else Inl (SyntaxError (jstr ''Unexpected token in JSON'')))"

section \<open>The collaborators\<close>

text \<open>
  The vector store and the language model are outside the program. One invocation of the
  pipeline sees them through the outcome of each remote call, which is either a thrown
  error or the value the call resolves to:
  \<^item> \<open>fromExistingIndex\<close>: \<open>AstraDBVectorStore.fromExistingIndex(embeddings, astraConfig)\<close>;
    the store it resolves to is read as \<open>asRetriever(k).getRelevantDocuments(query)\<close>,
    giving the \<open>pageContent\<close> of each matched document;
  \<^item> \<open>relevanceChain\<close> and \<open>classificationChain\<close>: the two prompt | model | StringOutputParser
    chains of the classification service, as functions of their template variables;
  \<^item> \<open>invoke\<close>: \<open>model.invoke(messages)\<close>, giving \<open>response.content\<close>.
\<close>

record message =
  role :: jsstring
  content :: jsstring

type_synonym vectorStore = "nat \<Rightarrow> jsstring \<Rightarrow> jserror + jsstring list"

record services =
  fromExistingIndex :: "jserror + vectorStore"
  relevanceChain :: "jsstring \<Rightarrow> jsstring \<Rightarrow> jserror + jsstring"
  classificationChain :: "jsstring \<Rightarrow> jserror + jsstring"
  invoke :: "message list \<Rightarrow> jserror + jsstring"

section \<open>DocumentService\<close>

definition createRetriever :: "services \<Rightarrow> jserror + vectorStore" where
  "createRetriever w = fromExistingIndex w"

text \<open>\<open>formatDocumentsAsString\<close> of the library joins the page contents with a blank line.\<close>

fun formatDocumentsAsString :: "jsstring list \<Rightarrow> jsstring" where
  "formatDocumentsAsString [] = []"
| "formatDocumentsAsString [d] = d"
| "formatDocumentsAsString (d # ds) = d @ [0x0A, 0x0A] @ formatDocumentsAsString ds"

definition getRelevantDocuments :: "services \<Rightarrow> jsstring \<Rightarrow> jserror + jsstring" where
  "getRelevantDocuments w query =
     (case createRetriever w of
        Inl e \<Rightarrow> Inl e
      | Inr vectorStore \<Rightarrow>
          (case vectorStore 5 query of
             Inl e \<Rightarrow> Inl e
           | Inr relevantDocs \<Rightarrow> Inr (formatDocumentsAsString relevantDocs)))"

section \<open>ClassificationService\<close>

definition checkDocumentRelevance ::
  "(jsstring \<Rightarrow> jsstring) \<Rightarrow> services \<Rightarrow> jsstring \<Rightarrow> jsstring \<Rightarrow> jserror + bool" where
  "checkDocumentRelevance U w query context =
     (case relevanceChain w query context of
        Inl e \<Rightarrow> Inl e
      | Inr relevanceCheck \<Rightarrow> Inr (toUpperCase U (trim relevanceCheck) = jstr ''YES''))"

definition classifyQuery ::
  "(jsstring \<Rightarrow> jsstring) \<Rightarrow> services \<Rightarrow> jsstring \<Rightarrow> jsstring \<Rightarrow> jserror + jsstring" where
  "classifyQuery U w query context =
     (case checkDocumentRelevance U w query context of
        Inl e \<Rightarrow> Inl e
      | Inr hasRelevantDocs \<Rightarrow>
          if hasRelevantDocs then Inr (jstr ''TECHNICAL_WITH_DOCS'')
          else
            (case classificationChain w query of
               Inl e \<Rightarrow> Inl e
             | Inr classification \<Rightarrow> Inr (toUpperCase U (trim classification))))"

section \<open>ResponseService\<close>

subsection \<open>The cleanup before the second parse\<close>

text \<open>
  \<open>.replace(/```json\s*|\s*```/g, '')\<close>: scanning from the left, at each position the first
  alternative (the opening fence and the whitespace after it) is tried before the second
  (whitespace and a fence); a match is dropped and the scan goes on after it.
\<close>

function removeMarkdown :: "jsstring \<Rightarrow> jsstring" where
  "removeMarkdown [] = []"
| "removeMarkdown (c # cs) =
     (if take 7 (c # cs) = jstr ''```json''
        then removeMarkdown (dropWhile isWhiteSpace (drop 7 (c # cs)))
      else if take 3 (dropWhile isWhiteSpace (c # cs)) = jstr ''```''
        then removeMarkdown (drop 3 (dropWhile isWhiteSpace (c # cs)))
      else c # removeMarkdown cs)"
  by pat_completeness auto
termination
proof (relation "measure length")
  fix c :: jschar and cs :: jsstring
  have "length (dropWhile isWhiteSpace (drop 7 (c # cs))) \<le> length (drop 7 (c # cs))"
    by (rule length_dropWhile_le)
  then show "(dropWhile isWhiteSpace (drop 7 (c # cs)), c # cs) \<in> measure length"
    by simp
next
  fix c :: jschar and cs :: jsstring
  assume "take 3 (dropWhile isWhiteSpace (c # cs)) = jstr ''```''"
  then have "length (take 3 (dropWhile isWhiteSpace (c # cs))) = 3"
    by (simp add: jstr_def)
  then have "3 \<le> length (dropWhile isWhiteSpace (c # cs))"
    by simp
  moreover have "length (dropWhile isWhiteSpace (c # cs)) \<le> length (c # cs)"
    by (rule length_dropWhile_le)
  ultimately show "(drop 3 (dropWhile isWhiteSpace (c # cs)), c # cs) \<in> measure length"
    by simp
qed simp_all

text \<open>\<open>.replace(/[\u201C\u201D]/g, '"')\<close>\<close>

definition replaceSmartQuotes :: "jsstring \<Rightarrow> jsstring" where
  "replaceSmartQuotes s = map (\<lambda>c. if c = 0x201C \<or> c = 0x201D then 0x22 else c) s"

text \<open>\<open>.replace(/[\r\n]/g, '')\<close>\<close>

definition removeNewlines :: "jsstring \<Rightarrow> jsstring" where
  "removeNewlines s = filter (\<lambda>c. \<not> (c = 0x0D \<or> c = 0x0A)) s"

text \<open>\<open>.replace(/\s+/g, ' ')\<close>\<close>

function normalizeSpaces :: "jsstring \<Rightarrow> jsstring" where
  "normalizeSpaces [] = []"
| "normalizeSpaces (c # cs) =
     (if isWhiteSpace c then 0x20 # normalizeSpaces (dropWhile isWhiteSpace cs)
      else c # normalizeSpaces cs)"
  by pat_completeness auto
termination
  by (relation "measure length") (auto simp: less_Suc_eq_le length_dropWhile_le)

definition cleaned :: "jsstring \<Rightarrow> jsstring" where
  "cleaned s = trim (normalizeSpaces (removeNewlines (replaceSmartQuotes (removeMarkdown s))))"

subsection \<open>The two parse attempts\<close>

definition parseResponse :: "jsstring \<Rightarrow> jserror + jsvalue" where
  "parseResponse responseContent =
     (case JSON_parse responseContent of
        Inr parsedResponse \<Rightarrow> Inr parsedResponse
      | Inl parseError \<Rightarrow>
          (case JSON_parse (cleaned responseContent) of
             Inr parsedResponse \<Rightarrow> Inr parsedResponse
           | Inl secondError \<Rightarrow> Inl (Error (jstr ''Could not parse response''))))"

subsection \<open>The responders\<close>

definition systemPrompt :: message where
  "systemPrompt = \<lparr>role = jstr ''system'',
     content = jstr ''You are a technical support AI. You must return a valid JSON response with the exact structure provided. Do not include any additional formatting or explanation.''\<rparr>"

definition userPrompt :: "jsstring \<Rightarrow> jsstring \<Rightarrow> message" where
  \<open>userPrompt query context = \<lparr>role = jstr ''user'',
     content = jstr ''Context: '' @ context @ [0x0A, 0x0A] @ jstr ''Question: '' @ query @ [0x0A, 0x0A]
       @ jstr ''Provide your response in this EXACT JSON structure (no additional text or formatting):''
       @ [0x0A]
       @ jstr ''{"type":"TECHNICAL_WITH_DOCS","priority":"HIGH - Documentation Available","responseTime":"Immediate - Using Available Documentation","answer":"your answer here","confidence":0.95,"sourcesUsed":1,"relevantDocs":[]}''\<rparr>\<close>

definition handleTechnicalNoDocs :: jsvalue where
  "handleTechnicalNoDocs = JObject
     [(jstr ''type'', JString (jstr ''TECHNICAL_NO_DOCS'')),
      (jstr ''message'', JString (jstr ''Your technical question requires specialized attention as it's not covered in our documentation.'')),
      (jstr ''contactInfo'', JObject
         [(jstr ''email'', JString (jstr ''tech@support.com'')),
          (jstr ''phone'', JString (jstr ''1-800-XXX-YYYY'')),
          (jstr ''supportHours'', JString (jstr ''24/7''))]),
      (jstr ''ticketPriority'', JString (jstr ''High''))]"

definition handleBilling :: jsvalue where
  "handleBilling = JObject
     [(jstr ''type'', JString (jstr ''BILLING'')),
      (jstr ''message'', JString (jstr ''For your security, billing inquiries must be handled through our secure billing channels.'')),
      (jstr ''contactInfo'', JObject
         [(jstr ''email'', JString (jstr ''billing@support.com'')),
          (jstr ''phone'', JString (jstr ''1-800-XXX-XXXX'')),
          (jstr ''hours'', JString (jstr ''Monday-Friday, 9 AM - 5 PM EST''))]),
      (jstr ''securityNote'', JString (jstr ''Never share payment information through unsecured channels.''))]"

definition handleIrrelevant :: jsvalue where
  "handleIrrelevant = JObject
     [(jstr ''type'', JString (jstr ''IRRELEVANT'')),
      (jstr ''message'', JString (jstr ''Your query doesn't match our supported categories or may be outside our scope.'')),
      (jstr ''suggestion'', JString (jstr ''Please rephrase your question or choose from our available support categories.'')),
      (jstr ''availableCategories'', JArray
         [JString (jstr ''Technical Support''),
          JString (jstr ''Billing & Payments''),
          JString (jstr ''Product Information'')])]"

text \<open>
  The checks and the record built after a successful parse. The reads of the returned
  record cannot throw: \<open>parsedResponse\<close> is not \<open>null\<close> once the read of \<open>answer\<close> has passed.
\<close>

definition readProp :: "jsvalue \<Rightarrow> jsstring \<Rightarrow> jsvalue" where
  "readProp v k = (case getProp v k of Inl e \<Rightarrow> JUndefined | Inr x \<Rightarrow> x)"

definition structuredResponse :: "jsvalue \<Rightarrow> jserror + jsvalue" where
  "structuredResponse parsedResponse =
     (case getProp parsedResponse (jstr ''answer'') of
        Inl e \<Rightarrow> Inl e
      | Inr answer \<Rightarrow>
          if \<not> truthy answer then Inl (Error (jstr ''Response missing required fields''))
          else Inr (JObject
            [(jstr ''type'', JString (jstr ''TECHNICAL_WITH_DOCS'')),
             (jstr ''priority'', JString (jstr ''HIGH - Documentation Available'')),
             (jstr ''responseTime'', JString (jstr ''Immediate - Using Available Documentation'')),
             (jstr ''answer'', readProp parsedResponse (jstr ''answer'')),
             (jstr ''confidence'',
                if typeof (readProp parsedResponse (jstr ''confidence'')) = jstr ''number''
                then readProp parsedResponse (jstr ''confidence'') else JNumber (95 / 100)),
             (jstr ''sourcesUsed'',
                if typeof (readProp parsedResponse (jstr ''sourcesUsed'')) = jstr ''number''
                then readProp parsedResponse (jstr ''sourcesUsed'') else JNumber 1),
             (jstr ''relevantDocs'',
                if isArray (readProp parsedResponse (jstr ''relevantDocs''))
                then readProp parsedResponse (jstr ''relevantDocs'') else JArray [])]))"

text \<open>The body of the outer \<open>try\<close> of \<open>handleTechnicalWithDocs\<close>, and the method with its \<open>catch\<close>.\<close>

definition tryTechnicalWithDocs :: "services \<Rightarrow> jsstring \<Rightarrow> jsstring \<Rightarrow> jserror + jsvalue" where
  "tryTechnicalWithDocs w query context =
     (case invoke w [systemPrompt, userPrompt query context] of
        Inl e \<Rightarrow> Inl e
      | Inr responseContent \<Rightarrow>
          (case parseResponse responseContent of
             Inl e \<Rightarrow> Inl e
           | Inr parsedResponse \<Rightarrow> structuredResponse parsedResponse))"

definition handleTechnicalWithDocs :: "services \<Rightarrow> jsstring \<Rightarrow> jsstring \<Rightarrow> jserror + jsvalue" where
  "handleTechnicalWithDocs w query context =
     (case tryTechnicalWithDocs w query context of
        Inr response \<Rightarrow> Inr response
      | Inl error \<Rightarrow> Inr handleTechnicalNoDocs)"

definition handleQuery :: "services \<Rightarrow> jsstring \<Rightarrow> jsstring \<Rightarrow> jsstring \<Rightarrow> jserror + jsvalue" where
  "handleQuery w query queryType context =
     (if queryType = jstr ''TECHNICAL_WITH_DOCS'' then handleTechnicalWithDocs w query context
      else if queryType = jstr ''TECHNICAL_NO_DOCS'' then Inr handleTechnicalNoDocs
      else if queryType = jstr ''BILLING'' then Inr handleBilling
      else if queryType = jstr ''IRRELEVANT'' then Inr handleIrrelevant
      else Inr handleIrrelevant)"

section \<open>The entry point\<close>

text \<open>
  The body of the \<open>try\<close> of \<open>askQuestion\<close>, and the function with its \<open>catch\<close>. The
  logging between the calls has no effect on the result: \<open>JSON.stringify\<close> is applied to a
  record built from literals and from values of \<open>JSON.parse\<close>, on which it does not throw.
\<close>

definition tryAskQuestion :: "(jsstring \<Rightarrow> jsstring) \<Rightarrow> services \<Rightarrow> jsstring \<Rightarrow> jserror + jsvalue" where
  "tryAskQuestion U w query =
     (case getRelevantDocuments w query of
        Inl e \<Rightarrow> Inl e
      | Inr context \<Rightarrow>
          (case classifyQuery U w query context of
             Inl e \<Rightarrow> Inl e
           | Inr queryType \<Rightarrow> handleQuery w query queryType context))"

definition askQuestion :: "(jsstring \<Rightarrow> jsstring) \<Rightarrow> services \<Rightarrow> jsstring \<Rightarrow> jserror + jsvalue" where
  "askQuestion U w query =
     (case tryAskQuestion U w query of
        Inr response \<Rightarrow> Inr response
      | Inl error \<Rightarrow> Inr (JObject
          [(jstr ''type'', JString (jstr ''ERROR'')),
           (jstr ''message'', JString (jstr ''An error occurred while processing your query.'')),
           (jstr ''error'', JString (message error))]))"

section \<open>The earlier handler kept in \<open>rag.js\<close>\<close>

text \<open>
  \<open>rag.js\<close> still holds the functions \<open>checkDocumentRelevance\<close>, \<open>classifyQuery\<close> and
  \<open>handleQuery\<close> from before the services were split off. \<open>askQuestion\<close> does not call
  them. The first two are the text of the service methods above. \<open>handleQuery\<close> differs
  from the service in two places: the record returned when the synthesis fails has a
  message of its own, and the \<open>switch\<close> has no \<open>default\<close>, so that any other query type
  gives \<open>undefined\<close>.
\<close>

definition rag_handleQuery :: "services \<Rightarrow> jsstring \<Rightarrow> jsstring \<Rightarrow> jsstring \<Rightarrow> jserror + jsvalue" where
  "rag_handleQuery w query queryType context =
     (if queryType = jstr ''TECHNICAL_WITH_DOCS'' then
        (case tryTechnicalWithDocs w query context of
           Inr response \<Rightarrow> Inr response
         | Inl error \<Rightarrow> Inr (JObject
             [(jstr ''type'', JString (jstr ''TECHNICAL_NO_DOCS'')),
              (jstr ''message'', JString (jstr ''Unable to process the technical documentation response. Redirecting to support.'')),
              (jstr ''contactInfo'', JObject
                 [(jstr ''email'', JString (jstr ''tech@support.com'')),
                  (jstr ''phone'', JString (jstr ''1-800-XXX-YYYY'')),
                  (jstr ''supportHours'', JString (jstr ''24/7''))]),
              (jstr ''ticketPriority'', JString (jstr ''High''))]))
      else if queryType = jstr ''TECHNICAL_NO_DOCS'' then Inr handleTechnicalNoDocs
      else if queryType = jstr ''BILLING'' then Inr handleBilling
      else if queryType = jstr ''IRRELEVANT'' then Inr handleIrrelevant
      else Inr JUndefined)"

section \<open>Fixed collaborators and replies for the examples\<close>

text \<open>
  Collaborators that answer every call with a given outcome: the documents of the store,
  the reply of the relevance chain, the reply of the classification chain and the reply
  of the model to the synthesis request.
\<close>

definition stubServices ::
  "jserror + jsstring list \<Rightarrow> jserror + jsstring \<Rightarrow> jserror + jsstring \<Rightarrow> jserror + jsstring \<Rightarrow> services" where
  "stubServices docs relevance classification reply =
     \<lparr>fromExistingIndex = Inr (\<lambda>k query. docs),
      relevanceChain = (\<lambda>query context. relevance),
      classificationChain = (\<lambda>query. classification),
      invoke = (\<lambda>messages. reply)\<rparr>"

text \<open>A reply inside a Markdown fence, and a reply whose key is in typographic quotes.\<close>

definition fencedReply :: jsstring where
  \<open>fencedReply = jstr ''```json'' @ [0x0A] @ jstr ''{"answer":"x"}'' @ [0x0A] @ jstr ''```''\<close>

definition smartQuotedReply :: jsstring where
  \<open>smartQuotedReply = jstr ''{'' @ [0x201C] @ jstr ''answer'' @ [0x201D] @ jstr '':"x"}''\<close>

text \<open>
  A reply whose key holds a line feed, and a reply that needs every step of the cleanup:
  fences, a carriage return, typographic quotes, a run of space, tab and no-break space,
  a line feed inside the answer, and spaces at the end.
\<close>

definition lineFeedReply :: jsstring where
  \<open>lineFeedReply = jstr ''{"a'' @ [0x0A] @ jstr ''b":1}''\<close>

definition messyReply :: jsstring where
  \<open>messyReply = jstr ''```json'' @ [0x0D, 0x0A] @ jstr ''{'' @ [0x201C] @ jstr ''answer'' @ [0x201D]
     @ jstr '': '' @ [0x09, 0xA0] @ jstr ''"x'' @ [0x0A] @ jstr ''y"}'' @ [0x0A] @ jstr ''```  ''\<close>

section \<open>The bound on the nesting is never reached\<close>

text \<open>
  Every successful call of the parser consumes a code unit, so the calls nested inside a
  text are fewer than the bound \<open>JSON_parse\<close> starts with: a larger bound gives the same
  result, for a value and for a SyntaxError alike.
\<close>

lemma length_skipWs: "length (skipWs s) \<le> length s"
  by (simp add: skipWs_def length_dropWhile_le)

lemma length_dropWhile_takeWhile:
  "takeWhile P xs \<noteq> [] \<Longrightarrow> length (dropWhile P xs) < length xs"
proof -
  assume a: "takeWhile P xs \<noteq> []"
  have "length (takeWhile P xs) + length (dropWhile P xs) = length xs"
    by (metis length_append takeWhile_dropWhile_id)
  with a show ?thesis
    by (cases "takeWhile P xs") auto
qed

lemma parseStringChars_step:
  assumes "parseStringChars acc (c # cs) = Some (k, t)"
  shows "t = cs \<or> (\<exists>acc' s'. parseStringChars acc' s' = Some (k, t) \<and> length s' \<le> length cs)"
proof (cases "c = 0x22")
  case True
  with assms show ?thesis by simp
next
  case False
  note nq = this
  show ?thesis
  proof (cases "c = 0x5C")
    case False
    with nq assms have "parseStringChars (c # acc) cs = Some (k, t)"
      by (simp split: if_splits)
    then show ?thesis by blast
  next
    case True
    show ?thesis
    proof (cases cs)
      case Nil
      with True assms show ?thesis by simp
    next
      case (Cons e rest)
      show ?thesis
      proof (cases "e = 0x75")
        case False
        with True Cons assms have "\<exists>x. parseStringChars (x # acc) rest = Some (k, t)"
          by (simp split: if_splits) blast+
        then obtain x where "parseStringChars (x # acc) rest = Some (k, t)" ..
        moreover have "length rest \<le> length cs"
          using Cons by simp
        ultimately show ?thesis by blast
      next
        case u: True
        with True Cons assms obtain h1 h2 h3 h4 rest' x where
          "rest = h1 # h2 # h3 # h4 # rest'" "parseStringChars (x # acc) rest' = Some (k, t)"
          by (simp split: list.splits option.splits)
        moreover from this Cons have "length rest' \<le> length cs"
          by simp
        ultimately show ?thesis by blast
      qed
    qed
  qed
qed

lemma parseStringChars_shorter:
  "parseStringChars acc s = Some (k, t) \<Longrightarrow> length t < length s"
proof (induction s arbitrary: acc rule: length_induct)
  case (1 s)
  show ?case
  proof (cases s)
    case Nil
    with 1 show ?thesis by simp
  next
    case (Cons c cs)
    with 1(2) have "parseStringChars acc (c # cs) = Some (k, t)"
      by simp
    from parseStringChars_step[OF this] show ?thesis
    proof
      assume "t = cs"
      with Cons show ?thesis by simp
    next
      assume "\<exists>acc' s'. parseStringChars acc' s' = Some (k, t) \<and> length s' \<le> length cs"
      then obtain acc' s' where p: "parseStringChars acc' s' = Some (k, t)" "length s' \<le> length cs"
        by blast
      with Cons have "length s' < length s"
        by simp
      with 1(1) p(1) have "length t < length s'"
        by blast
      with p(2) Cons show ?thesis
        by simp
    qed
  qed
qed



lemma if_chain_Some:
  "(if A then None else if B then None else if C then None else Some (x, y)) = Some (v, t)
   \<Longrightarrow> \<not> A \<and> t = y"
  by (simp split: if_splits)

lemma parseNumber_shorter:
  assumes "parseNumber s = Some (v, t)"
  shows "length t < length s"
proof -
  define s1 where "s1 = (if take 1 s = [0x2D] then drop 1 s else s)"
  define s2 where "s2 = dropWhile isDigit s1"
  define s3 where "s3 = (if take 1 s2 = [0x2E] then dropWhile isDigit (drop 1 s2) else s2)"
  define hasExp where "hasExp = (take 1 s3 = [0x65] \<or> take 1 s3 = [0x45])"
  define s4 where "s4 = (if hasExp then drop 1 s3 else s3)"
  define s5 where "s5 = (if hasExp \<and> (take 1 s4 = [0x2D] \<or> take 1 s4 = [0x2B]) then drop 1 s4 else s4)"
  define s6 where "s6 = (if hasExp then dropWhile isDigit s5 else s3)"
  have "\<not> (takeWhile isDigit s1 = []
           \<or> (take 1 (takeWhile isDigit s1) = [0x30] \<and> length (takeWhile isDigit s1) > 1))
        \<and> t = s6"
    using assms
    unfolding parseNumber_def Let_def s1_def s2_def s3_def s4_def s5_def s6_def hasExp_def
    by (rule if_chain_Some)
  then have ip: "takeWhile isDigit s1 \<noteq> []" and t: "t = s6"
    by blast+
  have 1: "length s1 \<le> length s"
    by (simp add: s1_def)
  have 2: "length s2 < length s1"
    unfolding s2_def using ip by (rule length_dropWhile_takeWhile)
  have "length (dropWhile isDigit (drop 1 s2)) \<le> length (drop 1 s2)"
    by (rule length_dropWhile_le)
  also have "\<dots> \<le> length s2"
    by simp
  finally have 3: "length s3 \<le> length s2"
    by (simp add: s3_def)
  have 4: "length s4 \<le> length s3"
    by (simp add: s4_def)
  have 5: "length s5 \<le> length s4"
    by (simp add: s5_def)
  have "length (dropWhile isDigit s5) \<le> length s5"
    by (rule length_dropWhile_le)
  with 4 5 have 6: "length s6 \<le> length s3"
    by (simp add: s6_def)
  from 1 2 3 6 t show ?thesis
    by simp
qed


lemma parseValue_shorter_step:
  assumes "parseValue (Suc n) s = Some (v, t)"
  shows "length t < length s
    \<or> (\<exists>s'. length s' < length s
          \<and> (parseMembers n [] s' = Some (v, t) \<or> parseElements n [] s' = Some (v, t)))"
proof (cases s)
  case Nil
  with assms show ?thesis by simp
next
  case (Cons c cs)
  have ws: "length (skipWs cs) < length s"
    using length_skipWs[of cs] Cons by simp
  consider (obj) "c = 0x7B" | (arr) "c \<noteq> 0x7B" "c = 0x5B"
    | (str) "c \<noteq> 0x7B" "c \<noteq> 0x5B" "c = 0x22"
    | (other) "c \<noteq> 0x7B" "c \<noteq> 0x5B" "c \<noteq> 0x22"
    by blast
  then show ?thesis
  proof cases
    case obj
    with assms Cons have "\<exists>d ds. skipWs cs = d # ds
        \<and> (t = ds \<or> parseMembers n [] (d # ds) = Some (v, t))"
      by (simp split: list.splits if_splits)
    then obtain d ds where d: "skipWs cs = d # ds"
      "t = ds \<or> parseMembers n [] (d # ds) = Some (v, t)"
      by blast
    from d(2) show ?thesis
    proof
      assume "t = ds"
      with d(1) ws show ?thesis by simp
    next
      assume "parseMembers n [] (d # ds) = Some (v, t)"
      with d(1) ws show ?thesis by metis
    qed
  next
    case arr
    with assms Cons have "\<exists>d ds. skipWs cs = d # ds
        \<and> (t = ds \<or> parseElements n [] (d # ds) = Some (v, t))"
      by (simp split: list.splits if_splits)
    then obtain d ds where d: "skipWs cs = d # ds"
      "t = ds \<or> parseElements n [] (d # ds) = Some (v, t)"
      by blast
    from d(2) show ?thesis
    proof
      assume "t = ds"
      with d(1) ws show ?thesis by simp
    next
      assume "parseElements n [] (d # ds) = Some (v, t)"
      with d(1) ws show ?thesis by metis
    qed
  next
    case str
    with assms Cons have "\<exists>k. parseStringChars [] cs = Some (k, t)"
      by (auto split: option.splits prod.splits)
    then have "length t < length cs"
      using parseStringChars_shorter by blast
    with Cons show ?thesis by simp
  next
    case other
    with assms Cons have "parseNumber s = Some (v, t) \<or> t = drop 4 s \<or> t = drop 5 s"
      by (simp split: if_splits)
    then have "length t < length s"
      using parseNumber_shorter[of s v t] Cons by auto
    then show ?thesis ..
  qed
qed

lemma parseElements_step:
  assumes "parseElements (Suc n) acc s = Some (v, t)"
  shows "\<exists>v' t' d ds. parseValue n s = Some (v', t') \<and> skipWs t' = d # ds
    \<and> (t = ds \<or> parseElements n (v' # acc) (skipWs ds) = Some (v, t))"
  using assms by (simp split: option.splits prod.splits list.splits if_splits)

lemma parseMembers_step:
  assumes "parseMembers (Suc n) acc s = Some (v, t)"
  shows "\<exists>q cs k t1 col t2 v' t3 d ds. s = q # cs \<and> parseStringChars [] cs = Some (k, t1)
    \<and> skipWs t1 = col # t2 \<and> parseValue n (skipWs t2) = Some (v', t3) \<and> skipWs t3 = d # ds
    \<and> (t = ds \<or> parseMembers n (defineProperty k v' acc) (skipWs ds) = Some (v, t))"
  using assms by (simp split: option.splits prod.splits list.splits if_splits)


lemma skipWs_Cons_shorter: "skipWs t = d # ds \<Longrightarrow> length ds < length t"
  using length_skipWs[of t] by simp

lemma parse_shorter:
  "(\<forall>s v t. parseValue n s = Some (v, t) \<longrightarrow> length t < length s)
   \<and> (\<forall>acc s v t. parseElements n acc s = Some (v, t) \<longrightarrow> length t < length s)
   \<and> (\<forall>acc s v t. parseMembers n acc s = Some (v, t) \<longrightarrow> length t < length s)"
proof (induction n)
  case 0
  show ?case by simp
next
  case (Suc n)
  then have V: "\<And>s v t. parseValue n s = Some (v, t) \<Longrightarrow> length t < length s"
    and E: "\<And>acc s v t. parseElements n acc s = Some (v, t) \<Longrightarrow> length t < length s"
    and M: "\<And>acc s v t. parseMembers n acc s = Some (v, t) \<Longrightarrow> length t < length s"
    by blast+
  have V': "length t < length s" if a: "parseValue (Suc n) s = Some (v, t)" for s v t
    using parseValue_shorter_step[OF a]
  proof
    assume "length t < length s"
    then show ?thesis .
  next
    assume "\<exists>s'. length s' < length s
          \<and> (parseMembers n [] s' = Some (v, t) \<or> parseElements n [] s' = Some (v, t))"
    then obtain s' where s': "length s' < length s"
      "parseMembers n [] s' = Some (v, t) \<or> parseElements n [] s' = Some (v, t)"
      by blast
    from s'(2) have "length t < length s'"
      using E M by blast
    with s'(1) show ?thesis by simp
  qed
  have E': "length t < length s" if a: "parseElements (Suc n) acc s = Some (v, t)" for acc s v t
  proof -
    from parseElements_step[OF a] obtain v' t' d ds where
      p: "parseValue n s = Some (v', t')" "skipWs t' = d # ds"
        "t = ds \<or> parseElements n (v' # acc) (skipWs ds) = Some (v, t)"
      by blast
    have 1: "length t' < length s"
      using V[OF p(1)] .
    have 2: "length ds < length t'"
      using skipWs_Cons_shorter[OF p(2)] .
    from p(3) have "length t \<le> length ds"
    proof
      assume "t = ds"
      then show ?thesis by simp
    next
      assume "parseElements n (v' # acc) (skipWs ds) = Some (v, t)"
      from E[OF this] length_skipWs[of ds] show ?thesis by simp
    qed
    with 1 2 show ?thesis by simp
  qed
  have M': "length t < length s" if a: "parseMembers (Suc n) acc s = Some (v, t)" for acc s v t
  proof -
    from parseMembers_step[OF a] obtain q cs k t1 col t2 v' t3 d ds where
      p: "s = q # cs" "parseStringChars [] cs = Some (k, t1)" "skipWs t1 = col # t2"
        "parseValue n (skipWs t2) = Some (v', t3)" "skipWs t3 = d # ds"
        "t = ds \<or> parseMembers n (defineProperty k v' acc) (skipWs ds) = Some (v, t)"
      by blast
    have 1: "length t1 < length cs"
      using parseStringChars_shorter[OF p(2)] .
    have 2: "length t2 < length t1"
      using skipWs_Cons_shorter[OF p(3)] .
    have 3: "length t3 < length t2"
      using V[OF p(4)] length_skipWs[of t2] by simp
    have 4: "length ds < length t3"
      using skipWs_Cons_shorter[OF p(5)] .
    from p(6) have "length t \<le> length ds"
    proof
      assume "t = ds"
      then show ?thesis by simp
    next
      assume "parseMembers n (defineProperty k v' acc) (skipWs ds) = Some (v, t)"
      from M[OF this] length_skipWs[of ds] show ?thesis by simp
    qed
    with 1 2 3 4 p(1) show ?thesis by simp
  qed
  from V' E' M' show ?case
    by blast
qed


lemma parseValue_shorter: "parseValue n s = Some (v, t) \<Longrightarrow> length t < length s"
  using parse_shorter by blast

lemma parse_fuel_Suc:
  "(\<forall>s. 2 * length s + 1 \<le> n \<longrightarrow> parseValue (Suc n) s = parseValue n s)
   \<and> (\<forall>acc s. 2 * length s + 2 \<le> n \<longrightarrow> parseElements (Suc n) acc s = parseElements n acc s)
   \<and> (\<forall>acc s. 2 * length s + 2 \<le> n \<longrightarrow> parseMembers (Suc n) acc s = parseMembers n acc s)"
proof (induction n)
  case 0
  show ?case by simp
next
  case (Suc n)
  then have V: "\<And>s. 2 * length s + 1 \<le> n \<Longrightarrow> parseValue (Suc n) s = parseValue n s"
    and E: "\<And>acc s. 2 * length s + 2 \<le> n \<Longrightarrow> parseElements (Suc n) acc s = parseElements n acc s"
    and M: "\<And>acc s. 2 * length s + 2 \<le> n \<Longrightarrow> parseMembers (Suc n) acc s = parseMembers n acc s"
    by blast+
  have V': "parseValue (Suc (Suc n)) s = parseValue (Suc n) s" if b: "2 * length s + 1 \<le> Suc n" for s
  proof (cases s)
    case Nil
    then show ?thesis by simp
  next
    case (Cons c cs)
    show ?thesis
    proof (cases "skipWs cs")
      case Nil
      with Cons show ?thesis
        by (simp del: parseElements.simps parseMembers.simps)
    next
      case ws: (Cons d ds)
      have l: "Suc (length ds) \<le> length cs"
        using length_skipWs[of cs] ws by simp
      have eq: "parseMembers (Suc n) [] (x # ds) = parseMembers n [] (x # ds)"
        "parseElements (Suc n) [] (x # ds) = parseElements n [] (x # ds)" for x
      proof -
        from l b Cons have "2 * length (x # ds) + 2 \<le> n"
          by simp
        then show "parseMembers (Suc n) [] (x # ds) = parseMembers n [] (x # ds)"
          and "parseElements (Suc n) [] (x # ds) = parseElements n [] (x # ds)"
          using M E by blast+
      qed
      from Cons ws show ?thesis
        by (simp add: eq del: parseElements.simps parseMembers.simps)
    qed
  qed
  have E': "parseElements (Suc (Suc n)) acc s = parseElements (Suc n) acc s"
    if b: "2 * length s + 2 \<le> Suc n" for acc s
  proof -
    from b have v: "parseValue (Suc n) s = parseValue n s"
      using V by simp
    show ?thesis
    proof (cases "parseValue n s")
      case None
      with v show ?thesis
        unfolding parseElements.simps(2)[of "Suc n" acc s] parseElements.simps(2)[of n acc s]
        by simp
    next
      case (Some p)
      obtain v' t' where p: "p = (v', t')"
        by (cases p)
      show ?thesis
      proof (cases "skipWs t'")
        case Nil
        with v Some p show ?thesis
          unfolding parseElements.simps(2)[of "Suc n" acc s] parseElements.simps(2)[of n acc s]
          by simp
      next
        case (Cons d ds)
        have "length t' < length s"
          using Some p parseValue_shorter by blast
        moreover have "length ds < length t'"
          using Cons by (rule skipWs_Cons_shorter)
        ultimately have "2 * length (skipWs ds) + 2 \<le> n"
          using b length_skipWs[of ds] by simp
        then have "parseElements (Suc n) (v' # acc) (skipWs ds) = parseElements n (v' # acc) (skipWs ds)"
          by (rule E)
        with v Some p Cons show ?thesis
          unfolding parseElements.simps(2)[of "Suc n" acc s] parseElements.simps(2)[of n acc s]
          by (simp del: parseValue.simps parseElements.simps parseMembers.simps)
      qed
    qed
  qed
  have M': "parseMembers (Suc (Suc n)) acc s = parseMembers (Suc n) acc s"
    if b: "2 * length s + 2 \<le> Suc n" for acc s
  proof (cases s)
    case Nil
    then show ?thesis by simp
  next
    case (Cons q cs)
    note u = parseMembers.simps(2)[of "Suc n" acc s] parseMembers.simps(2)[of n acc s]
    show ?thesis
    proof (cases "parseStringChars [] cs")
      case None
      with Cons show ?thesis
        unfolding u by simp
    next
      case (Some p)
      obtain k t1 where p: "p = (k, t1)"
        by (cases p)
      have 1: "length t1 < length cs"
        using Some p parseStringChars_shorter by blast
      show ?thesis
      proof (cases "skipWs t1")
        case Nil
        with Cons Some p show ?thesis
          unfolding u by simp
      next
        case c2: (Cons col t2)
        have 2: "length t2 < length t1"
          using c2 by (rule skipWs_Cons_shorter)
        from 1 2 b Cons have "2 * length (skipWs t2) + 1 \<le> n"
          using length_skipWs[of t2] by simp
        then have v: "parseValue (Suc n) (skipWs t2) = parseValue n (skipWs t2)"
          by (rule V)
        show ?thesis
        proof (cases "parseValue n (skipWs t2)")
          case None
          with v Cons Some p c2 show ?thesis
            unfolding u by (simp del: parseValue.simps parseElements.simps parseMembers.simps)
        next
          case s2: (Some p')
          obtain v' t3 where p': "p' = (v', t3)"
            by (cases p')
          have 3: "length t3 < length (skipWs t2)"
            using s2 p' parseValue_shorter by blast
          show ?thesis
          proof (cases "skipWs t3")
            case Nil
            with v Cons Some p c2 s2 p' show ?thesis
              unfolding u by (simp del: parseValue.simps parseElements.simps parseMembers.simps)
          next
            case c3: (Cons d ds)
            have 4: "length ds < length t3"
              using c3 by (rule skipWs_Cons_shorter)
            from 1 2 3 4 b Cons have "2 * length (skipWs ds) + 2 \<le> n"
              using length_skipWs[of ds] length_skipWs[of t2] by simp
            then have "parseMembers (Suc n) (defineProperty k v' acc) (skipWs ds)
                = parseMembers n (defineProperty k v' acc) (skipWs ds)"
              by (rule M)
            with v Cons Some p c2 s2 p' c3 show ?thesis
              unfolding u by (simp del: parseValue.simps parseElements.simps parseMembers.simps)
          qed
        qed
      qed
    qed
  qed
  from V' E' M' show ?case
    by blast
qed

lemma parseValue_fuel:
  "2 * length s + 1 \<le> n \<Longrightarrow> parseValue (n + k) s = parseValue n s"
proof (induction k)
  case 0
  show ?case by simp
next
  case (Suc k)
  then have "2 * length s + 1 \<le> n + k"
    by simp
  then have "parseValue (Suc (n + k)) s = parseValue (n + k) s"
    using parse_fuel_Suc by blast
  with Suc show ?case
    by simp
qed

lemma JSON_parse_fuel:
  "JSON_parse text =
     (case parseValue (2 * length text + 2 + k) (skipWs text) of
        None \<Rightarrow> Inl (SyntaxError (jstr ''Unexpected token in JSON''))
      | Some (v, t) \<Rightarrow>
          if skipWs t = [] then Inr v
          else Inl (SyntaxError (jstr ''Unexpected token in JSON'')))"
proof -
  have "2 * length (skipWs text) + 1 \<le> 2 * length text + 2"
    using length_skipWs[of "text"] by simp
  then have "parseValue (2 * length text + 2 + k) (skipWs text)
      = parseValue (2 * length text + 2) (skipWs text)"
    by (rule parseValue_fuel)
  then show ?thesis
    by (simp add: JSON_parse_def)
qed

section \<open>Shapes of the responses\<close>

lemma stubServices_sel [simp]:
  "fromExistingIndex (stubServices d r c m) = Inr (\<lambda>k query. d)"
  "relevanceChain (stubServices d r c m) = (\<lambda>query context. r)"
  "classificationChain (stubServices d r c m) = (\<lambda>query. c)"
  "invoke (stubServices d r c m) = (\<lambda>messages. m)"
  by (simp_all add: stubServices_def)

lemma type_handleTechnicalNoDocs:
  "getProp handleTechnicalNoDocs (jstr ''type'') = Inr (JString (jstr ''TECHNICAL_NO_DOCS''))"
  by (simp add: handleTechnicalNoDocs_def)

lemma type_handleBilling:
  "getProp handleBilling (jstr ''type'') = Inr (JString (jstr ''BILLING''))"
  by (simp add: handleBilling_def)

lemma type_handleIrrelevant:
  "getProp handleIrrelevant (jstr ''type'') = Inr (JString (jstr ''IRRELEVANT''))"
  by (simp add: handleIrrelevant_def)

lemma structuredResponse_Inr:
  assumes "structuredResponse p = Inr r"
  shows "r = JObject
            [(jstr ''type'', JString (jstr ''TECHNICAL_WITH_DOCS'')),
             (jstr ''priority'', JString (jstr ''HIGH - Documentation Available'')),
             (jstr ''responseTime'', JString (jstr ''Immediate - Using Available Documentation'')),
             (jstr ''answer'', readProp p (jstr ''answer'')),
             (jstr ''confidence'',
                if typeof (readProp p (jstr ''confidence'')) = jstr ''number''
                then readProp p (jstr ''confidence'') else JNumber (95 / 100)),
             (jstr ''sourcesUsed'',
                if typeof (readProp p (jstr ''sourcesUsed'')) = jstr ''number''
                then readProp p (jstr ''sourcesUsed'') else JNumber 1),
             (jstr ''relevantDocs'',
                if isArray (readProp p (jstr ''relevantDocs''))
                then readProp p (jstr ''relevantDocs'') else JArray [])]"
    and "truthy (readProp p (jstr ''answer''))"
  using assms by (auto simp: structuredResponse_def readProp_def split: sum.splits if_splits)

lemma structuredResponse_fields:
  assumes "structuredResponse p = Inr r"
  shows "getProp r (jstr ''type'') = Inr (JString (jstr ''TECHNICAL_WITH_DOCS''))"
    and "getProp r (jstr ''priority'') = Inr (JString (jstr ''HIGH - Documentation Available''))"
    and "getProp r (jstr ''responseTime'') = Inr (JString (jstr ''Immediate - Using Available Documentation''))"
    and "getProp r (jstr ''answer'') = Inr (readProp p (jstr ''answer''))"
  by (simp_all add: structuredResponse_Inr(1)[OF assms] jstr_def)

lemma handleTechnicalWithDocs_cases:
  "handleTechnicalWithDocs w query context = Inr handleTechnicalNoDocs \<and>
     (\<exists>e. tryTechnicalWithDocs w query context = Inl e)
   \<or> (\<exists>content p r. invoke w [systemPrompt, userPrompt query context] = Inr content \<and>
        parseResponse content = Inr p \<and> structuredResponse p = Inr r \<and>
        handleTechnicalWithDocs w query context = Inr r)"
  by (auto simp: handleTechnicalWithDocs_def tryTechnicalWithDocs_def split: sum.splits)

lemma handleTechnicalWithDocs_type:
  "\<exists>r. handleTechnicalWithDocs w query context = Inr r \<and>
     (getProp r (jstr ''type'') = Inr (JString (jstr ''TECHNICAL_WITH_DOCS''))
      \<or> getProp r (jstr ''type'') = Inr (JString (jstr ''TECHNICAL_NO_DOCS'')))"
  using handleTechnicalWithDocs_cases[of w query "context"]
  by (auto simp: type_handleTechnicalNoDocs structuredResponse_fields(1))

lemma handleQuery_type:
  "\<exists>r. handleQuery w query queryType context = Inr r \<and>
     (getProp r (jstr ''type'') = Inr (JString (jstr ''TECHNICAL_WITH_DOCS''))
      \<or> getProp r (jstr ''type'') = Inr (JString (jstr ''TECHNICAL_NO_DOCS''))
      \<or> getProp r (jstr ''type'') = Inr (JString (jstr ''BILLING''))
      \<or> getProp r (jstr ''type'') = Inr (JString (jstr ''IRRELEVANT'')))"
  using handleTechnicalWithDocs_type[of w query "context"]
  by (auto simp: handleQuery_def type_handleTechnicalNoDocs type_handleBilling type_handleIrrelevant)

section \<open>The entry point never raises\<close>

text \<open>
  C1. For every query and every behaviour of the collaborators, \<open>askQuestion\<close> returns a
  record and does not throw. The \<open>type\<close> of the record is one of TECHNICAL_WITH_DOCS,
  TECHNICAL_NO_DOCS, BILLING, IRRELEVANT and ERROR. Whenever the body of its \<open>try\<close> throws,
  the record is the ERROR payload with the fixed message and the message of the thrown
  error; a failure of the retrieval or of the classification is such a throw, and the
  response handling returns a record of its own for every query type.
\<close>

theorem askQuestion_never_raises:
  "\<exists>response. askQuestion U w query = Inr response
     \<and> (getProp response (jstr ''type'') = Inr (JString (jstr ''TECHNICAL_WITH_DOCS''))
        \<or> getProp response (jstr ''type'') = Inr (JString (jstr ''TECHNICAL_NO_DOCS''))
        \<or> getProp response (jstr ''type'') = Inr (JString (jstr ''BILLING''))
        \<or> getProp response (jstr ''type'') = Inr (JString (jstr ''IRRELEVANT''))
        \<or> getProp response (jstr ''type'') = Inr (JString (jstr ''ERROR'')))
     \<and> (\<forall>error. tryAskQuestion U w query = Inl error \<longrightarrow>
           response = JObject
             [(jstr ''type'', JString (jstr ''ERROR'')),
              (jstr ''message'', JString (jstr ''An error occurred while processing your query.'')),
              (jstr ''error'', JString (message error))])
     \<and> (\<forall>error. getRelevantDocuments w query = Inl error \<longrightarrow>
           tryAskQuestion U w query = Inl error)
     \<and> (\<forall>context error. getRelevantDocuments w query = Inr context
           \<and> classifyQuery U w query context = Inl error \<longrightarrow>
           tryAskQuestion U w query = Inl error)
     \<and> (\<forall>context queryType. getRelevantDocuments w query = Inr context
           \<and> classifyQuery U w query context = Inr queryType \<longrightarrow>
           handleQuery w query queryType context = Inr response)"
proof (cases "tryAskQuestion U w query")
  case (Inl error)
  then have 1: "askQuestion U w query = Inr (JObject
             [(jstr ''type'', JString (jstr ''ERROR'')),
              (jstr ''message'', JString (jstr ''An error occurred while processing your query.'')),
              (jstr ''error'', JString (message error))])"
    by (simp add: askQuestion_def)
  have 2: "getProp (JObject
             [(jstr ''type'', JString (jstr ''ERROR'')),
              (jstr ''message'', JString (jstr ''An error occurred while processing your query.'')),
              (jstr ''error'', JString (message error))]) (jstr ''type'') = Inr (JString (jstr ''ERROR''))"
    by simp
  have 3: "\<And>context queryType. getRelevantDocuments w query = Inr context
           \<Longrightarrow> classifyQuery U w query context = Inr queryType \<Longrightarrow> False"
  proof -
    fix "context" queryType
    assume a: "getRelevantDocuments w query = Inr context"
      and b: "classifyQuery U w query context = Inr queryType"
    obtain r where "handleQuery w query queryType context = Inr r"
      using handleQuery_type[of w query queryType "context"] by blast
    with Inl a b show False
      by (simp add: tryAskQuestion_def)
  qed
  show ?thesis
    using Inl 1 2 3 by (auto simp: tryAskQuestion_def split: sum.splits)
next
  case (Inr response)
  then have 1: "askQuestion U w query = Inr response"
    by (simp add: askQuestion_def)
  from Inr obtain "context" queryType where
    c: "getRelevantDocuments w query = Inr context"
       "classifyQuery U w query context = Inr queryType"
       "handleQuery w query queryType context = Inr response"
    by (auto simp: tryAskQuestion_def split: sum.splits)
  with handleQuery_type[of w query queryType "context"] 1 Inr show ?thesis
    by auto
qed

theorem askQuestion_never_raises_witness:
  "getRelevantDocuments
     (stubServices (Inl (Error (jstr ''store unreachable''))) (Inr []) (Inr []) (Inr []))
     (jstr ''q'') = Inl (Error (jstr ''store unreachable''))
   \<and> askQuestion id
     (stubServices (Inl (Error (jstr ''store unreachable''))) (Inr []) (Inr []) (Inr []))
     (jstr ''q'') = Inr (JObject
             [(jstr ''type'', JString (jstr ''ERROR'')),
              (jstr ''message'', JString (jstr ''An error occurred while processing your query.'')),
              (jstr ''error'', JString (jstr ''store unreachable''))])"
proof -
  have h: "getRelevantDocuments
     (stubServices (Inl (Error (jstr ''store unreachable''))) (Inr []) (Inr []) (Inr []))
     (jstr ''q'') = Inl (Error (jstr ''store unreachable''))"
    by (simp add: getRelevantDocuments_def createRetriever_def)
  show ?thesis
    using h askQuestion_never_raises [of id
        "stubServices (Inl (Error (jstr ''store unreachable''))) (Inr []) (Inr []) (Inr [])"
        "jstr ''q''"]
    by auto
qed

section \<open>The repair parse\<close>

lemma set_trim: "set (trim s) \<subseteq> set s"
proof -
  have "set (trim s) = set (dropWhile isWhiteSpace (rev (dropWhile isWhiteSpace s)))"
    by (simp add: trim_def)
  also have "\<dots> \<subseteq> set (rev (dropWhile isWhiteSpace s))"
    by (meson set_dropWhileD subsetI)
  also have "\<dots> \<subseteq> set s"
    using set_dropWhileD by fastforce
  finally show ?thesis .
qed

lemma set_normalizeSpaces: "set (normalizeSpaces s) \<subseteq> insert 0x20 (set s)"
proof (induction s rule: normalizeSpaces.induct)
  case 1
  then show ?case by simp
next
  case (2 c cs)
  have "set (dropWhile isWhiteSpace cs) \<subseteq> set cs"
    by (meson set_dropWhileD subsetI)
  with 2 show ?case by auto
qed

lemma isWhiteSpace_newline: "isWhiteSpace 0x0A" "isWhiteSpace 0x0D" "isWhiteSpace 0x20"
  by (simp_all add: isWhiteSpace_def)

lemma cleaned_no_newline: "0x0D \<notin> set (cleaned s) \<and> 0x0A \<notin> set (cleaned s)"
proof -
  have "set (cleaned s) \<subseteq> insert 0x20 (set (removeNewlines (replaceSmartQuotes (removeMarkdown s))))"
    unfolding cleaned_def using set_trim set_normalizeSpaces by blast
  then show ?thesis
    by (auto simp: removeNewlines_def)
qed

lemma cleaned_no_smart_quote: "0x201C \<notin> set (cleaned s) \<and> 0x201D \<notin> set (cleaned s)"
proof -
  have "set (cleaned s) \<subseteq> insert 0x20 (set (replaceSmartQuotes (removeMarkdown s)))"
    unfolding cleaned_def using set_trim set_normalizeSpaces
    by (fastforce simp: removeNewlines_def)
  then show ?thesis
    by (auto simp: replaceSmartQuotes_def)
qed

lemma JSON_parse_fencedReply:
  "JSON_parse fencedReply = Inl (SyntaxError (jstr ''Unexpected token in JSON''))"
  by code_simp

lemma cleaned_fencedReply: \<open>cleaned fencedReply = jstr ''{"answer":"x"}''\<close>
  by code_simp

lemma JSON_parse_answer_x:
  \<open>JSON_parse (jstr ''{"answer":"x"}'') = Inr (JObject [(jstr ''answer'', JString (jstr ''x''))])\<close>
  by code_simp

lemma JSON_parse_smartQuotedReply:
  "JSON_parse smartQuotedReply = Inl (SyntaxError (jstr ''Unexpected token in JSON''))"
  by code_simp

lemma cleaned_smartQuotedReply: \<open>cleaned smartQuotedReply = jstr ''{"answer":"x"}''\<close>
  by code_simp

lemma parseResponse_second:
  "JSON_parse s = Inl e \<Longrightarrow>
   parseResponse s =
     (case JSON_parse (cleaned s) of
        Inr parsedResponse \<Rightarrow> Inr parsedResponse
      | Inl secondError \<Rightarrow> Inl (Error (jstr ''Could not parse response'')))"
  by (simp add: parseResponse_def)


lemma removeMarkdown_no_fence:
  "0x60 \<notin> set s \<Longrightarrow> removeMarkdown s = s"
proof (induction s rule: removeMarkdown.induct)
  case 1
  show ?case by simp
next
  case (2 c cs)
  have a: "take 7 (c # cs) \<noteq> jstr ''```json''"
    using 2(4) by (auto simp: jstr_def)
  have b: "take 3 (dropWhile isWhiteSpace (c # cs)) \<noteq> jstr ''```''"
  proof
    assume h: "take 3 (dropWhile isWhiteSpace (c # cs)) = jstr ''```''"
    then have "0x60 \<in> set (take 3 (dropWhile isWhiteSpace (c # cs)))"
      by (simp add: jstr_def)
    then have "0x60 \<in> set (dropWhile isWhiteSpace (c # cs))"
      by (rule in_set_takeD)
    then have "0x60 \<in> set (c # cs)"
      by (rule set_dropWhileD)
    with 2(4) show False
      by simp
  qed
  from 2(4) have "0x60 \<notin> set cs"
    by simp
  with 2(3)[OF a b] have "removeMarkdown cs = cs"
    by simp
  with a b show ?case
    by simp
qed

lemma cleaned_line_break_deleted:
  assumes "0x60 \<notin> set a" and "0x60 \<notin> set b" and "c = 0x0D \<or> c = 0x0A"
  shows "cleaned (a @ [c] @ b) = cleaned (a @ b)"
proof -
  from assms have "0x60 \<notin> set (a @ [c] @ b)" and "0x60 \<notin> set (a @ b)"
    by auto
  then have "removeMarkdown (a @ [c] @ b) = a @ [c] @ b" and "removeMarkdown (a @ b) = a @ b"
    using removeMarkdown_no_fence by blast+
  moreover have "removeNewlines (replaceSmartQuotes (a @ [c] @ b))
      = removeNewlines (replaceSmartQuotes (a @ b))"
    using assms(3) by (auto simp: removeNewlines_def replaceSmartQuotes_def)
  ultimately show ?thesis
    by (simp only: cleaned_def)
qed

lemma normalizeSpaces_only_space:
  "c \<in> set (normalizeSpaces s) \<Longrightarrow> isWhiteSpace c \<Longrightarrow> c = 0x20"
proof (induction s rule: normalizeSpaces.induct)
  case 1
  then show ?case by simp
next
  case (2 d ds)
  then show ?case
    by (auto split: if_splits)
qed

lemma normalizeSpaces_after_run:
  "normalizeSpaces (dropWhile isWhiteSpace cs) = []
   \<or> \<not> isWhiteSpace (hd (normalizeSpaces (dropWhile isWhiteSpace cs)))"
proof (cases "dropWhile isWhiteSpace cs")
  case Nil
  then have "normalizeSpaces (dropWhile isWhiteSpace cs) = []"
    by (simp only: normalizeSpaces.simps)
  then show ?thesis ..
next
  case (Cons x xs)
  then have "\<not> isWhiteSpace x"
    using hd_dropWhile[of isWhiteSpace cs] by simp
  with Cons show ?thesis
    by simp
qed

lemma normalizeSpaces_no_double_space:
  "normalizeSpaces s \<noteq> u @ [0x20, 0x20] @ v"
proof (induction s arbitrary: u rule: normalizeSpaces.induct)
  case 1
  show ?case by simp
next
  case (2 c cs)
  show ?case
  proof (cases "isWhiteSpace c")
    case True
    show ?thesis
    proof (cases u)
      case Nil
      show ?thesis
      proof
        assume "normalizeSpaces (c # cs) = u @ [0x20, 0x20] @ v"
        with True Nil have "normalizeSpaces (dropWhile isWhiteSpace cs) = 0x20 # v"
          by simp
        with normalizeSpaces_after_run[of cs] show False
          by (simp add: isWhiteSpace_newline)
      qed
    next
      case (Cons x u')
      show ?thesis
      proof
        assume "normalizeSpaces (c # cs) = u @ [0x20, 0x20] @ v"
        with True Cons have "normalizeSpaces (dropWhile isWhiteSpace cs) = u' @ [0x20, 0x20] @ v"
          by simp
        with 2(1)[OF True] show False
          by blast
      qed
    qed
  next
    case False
    show ?thesis
    proof (cases u)
      case Nil
      show ?thesis
      proof
        assume "normalizeSpaces (c # cs) = u @ [0x20, 0x20] @ v"
        with False Nil have "c = 0x20"
          by simp
        with False show False
          by (simp add: isWhiteSpace_newline)
      qed
    next
      case (Cons x u')
      show ?thesis
      proof
        assume "normalizeSpaces (c # cs) = u @ [0x20, 0x20] @ v"
        with False Cons have "normalizeSpaces cs = u' @ [0x20, 0x20] @ v"
          by simp
        with 2(2)[OF False] show False
          by blast
      qed
    qed
  qed
qed

lemma trim_infix: "\<exists>a b. t = a @ trim t @ b"
proof -
  define d where "d = dropWhile isWhiteSpace t"
  have 1: "t = takeWhile isWhiteSpace t @ d"
    by (simp add: d_def)
  have "takeWhile isWhiteSpace (rev d) @ dropWhile isWhiteSpace (rev d) = rev d"
    by (rule takeWhile_dropWhile_id)
  then have "rev (takeWhile isWhiteSpace (rev d) @ dropWhile isWhiteSpace (rev d)) = rev (rev d)"
    by (rule arg_cong)
  then have "rev (dropWhile isWhiteSpace (rev d)) @ rev (takeWhile isWhiteSpace (rev d)) = d"
    by (simp only: rev_append rev_rev_ident)
  then have "d = trim t @ rev (takeWhile isWhiteSpace (rev d))"
    unfolding trim_def d_def by (rule sym)
  with 1 show ?thesis
    by metis
qed

lemma trim_ends:
  assumes "trim t \<noteq> []"
  shows "\<not> isWhiteSpace (hd (trim t)) \<and> \<not> isWhiteSpace (last (trim t))"
proof -
  define d where "d = dropWhile isWhiteSpace t"
  define e where "e = dropWhile isWhiteSpace (rev d)"
  have t: "trim t = rev e"
    by (simp add: trim_def d_def e_def)
  with assms have e: "e \<noteq> []"
    by simp
  then have "rev d \<noteq> []"
    by (auto simp: e_def)
  then have d: "d \<noteq> []"
    by simp
  have 1: "\<not> isWhiteSpace (hd e)"
    using e unfolding e_def by (rule hd_dropWhile)
  have 2: "\<not> isWhiteSpace (hd d)"
    using d unfolding d_def by (rule hd_dropWhile)
  have "rev d = takeWhile isWhiteSpace (rev d) @ e"
    by (simp add: e_def)
  then have "last (rev d) = last (takeWhile isWhiteSpace (rev d) @ e)"
    by (rule arg_cong)
  with e have "last (rev d) = last e"
    by simp
  with d have 3: "last e = hd d"
    by (simp add: last_rev)
  from e have "hd (rev e) = last e" and "last (rev e) = hd e"
    by (simp_all add: hd_rev last_rev)
  with 1 2 3 t show ?thesis
    by simp
qed

lemma cleaned_shape:
  "(\<forall>c \<in> set (cleaned s). isWhiteSpace c \<longrightarrow> c = 0x20)
   \<and> (\<forall>u v. cleaned s \<noteq> u @ [0x20, 0x20] @ v)
   \<and> (cleaned s \<noteq> [] \<longrightarrow>
        \<not> isWhiteSpace (hd (cleaned s)) \<and> \<not> isWhiteSpace (last (cleaned s)))"
proof -
  define r where "r = normalizeSpaces (removeNewlines (replaceSmartQuotes (removeMarkdown s)))"
  have c: "cleaned s = trim r"
    by (simp add: cleaned_def r_def)
  have 1: "\<forall>c \<in> set (cleaned s). isWhiteSpace c \<longrightarrow> c = 0x20"
    using set_trim[of r] normalizeSpaces_only_space unfolding c r_def by blast
  have 2: "\<forall>u v. cleaned s \<noteq> u @ [0x20, 0x20] @ v"
  proof (intro allI notI)
    fix u v
    assume h: "cleaned s = u @ [0x20, 0x20] @ v"
    obtain a b where "r = a @ trim r @ b"
      using trim_infix by blast
    with h c have "r = (a @ u) @ [0x20, 0x20] @ (v @ b)"
      by simp
    then show False
      using normalizeSpaces_no_double_space unfolding r_def by blast
  qed
  have 3: "cleaned s \<noteq> [] \<longrightarrow>
        \<not> isWhiteSpace (hd (cleaned s)) \<and> \<not> isWhiteSpace (last (cleaned s))"
    unfolding c using trim_ends by blast
  from 1 2 3 show ?thesis
    by blast
qed


lemma removeMarkdown_examples:
  \<open>removeMarkdown (jstr ''x```json  y'') = jstr ''xy''\<close>
  \<open>removeMarkdown (jstr ''x  ```y'') = jstr ''xy''\<close>
  \<open>removeMarkdown (jstr '' ```json'') = jstr ''json''\<close>
  by code_simp+

lemma cleanup_step_examples:
  "replaceSmartQuotes [0x201C, 0x61, 0x201D] = [0x22, 0x61, 0x22]"
  "removeNewlines (jstr ''a'' @ [0x0D, 0x0A] @ jstr ''b'') = jstr ''ab''"
  "normalizeSpaces (jstr ''a '' @ [0x09, 0xA0] @ jstr '' b  '') = jstr ''a b ''"
  "trim ([0x0A] @ jstr ''  x y '' @ [0x09]) = jstr ''x y''"
  by code_simp+

lemma cleaned_order_examples:
  "cleaned (jstr ''a'' @ [0x0A] @ jstr ''b  c '') = jstr ''ab c''"
  "cleaned (jstr ''``'' @ [0x0A] @ jstr ''`'') = jstr ''```''"
  by code_simp+

lemma lineFeedReply_examples:
  "JSON_parse lineFeedReply = Inl (SyntaxError (jstr ''Unexpected token in JSON''))"
  \<open>cleaned lineFeedReply = jstr ''{"ab":1}''\<close>
  "parseResponse lineFeedReply = Inr (JObject [(jstr ''ab'', JNumber 1)])"
  by code_simp+

lemma messyReply_examples:
  "JSON_parse messyReply = Inl (SyntaxError (jstr ''Unexpected token in JSON''))"
  \<open>cleaned messyReply = jstr ''{"answer": "xy"}''\<close>
  "parseResponse messyReply = Inr (JObject [(jstr ''answer'', JString (jstr ''xy''))])"
  by code_simp+

text \<open>
  C2. When the direct parse of the reply fails, the second attempt parses the reply after
  the cleanup, which is the composition, in this order, of: removing the fence markers,
  replacing the typographic double quotes by plain ones, removing carriage returns and
  line feeds, collapsing each run of whitespace to one space, and trimming.
  \<^item> Of every text the cleaned form holds no carriage return, no line feed and no
    typographic quote; its only whitespace is the space, never two in a row and never at
    either end. In a text without a backquote a line break is deleted, not turned into
    a space.
  \<^item> Each step is evaluated alone: the opening fence takes the whitespace after it, a
    closing fence the whitespace before it, and whitespace before \<open>```json\<close> makes the
    second alternative win, which leaves \<open>json\<close>; both typographic quotes become plain;
    carriage return and line feed are dropped; a run of space, tab and no-break space
    becomes one space; trimming strips both ends.
  \<^item> The order shows: a line feed between \<open>a\<close> and \<open>b\<close> leaves \<open>ab\<close> (line breaks go
    before whitespace is collapsed), and two backquotes, a line feed and a backquote
    leave a fence (fences are stripped before line breaks go).
  \<^item> For the reply made of the fence \<open>```json\<close>, a line feed, \<open>{"answer":"x"}\<close>, a line
    feed and the closing fence, the direct parse fails and the repair parse gives the
    record with the one field \<open>answer\<close> equal to \<open>x\<close>; the same holds for the reply whose
    key is in typographic quotes. A key with a line feed inside is repaired to the key
    \<open>ab\<close>, and a reply that needs all five steps is repaired to the answer \<open>xy\<close>.
\<close>

theorem repair_parse_pipeline:
  \<open>cleaned s = trim (normalizeSpaces (removeNewlines (replaceSmartQuotes (removeMarkdown s))))
   \<and> (\<forall>parseError. JSON_parse s = Inl parseError \<longrightarrow>
         parseResponse s =
           (case JSON_parse (cleaned s) of
              Inr parsedResponse \<Rightarrow> Inr parsedResponse
            | Inl secondError \<Rightarrow> Inl (Error (jstr ''Could not parse response''))))
   \<and> 0x0D \<notin> set (cleaned s) \<and> 0x0A \<notin> set (cleaned s)
   \<and> 0x201C \<notin> set (cleaned s) \<and> 0x201D \<notin> set (cleaned s)
   \<and> JSON_parse fencedReply = Inl (SyntaxError (jstr ''Unexpected token in JSON''))
   \<and> cleaned fencedReply = jstr ''{"answer":"x"}''
   \<and> parseResponse fencedReply = Inr (JObject [(jstr ''answer'', JString (jstr ''x''))])
   \<and> JSON_parse smartQuotedReply = Inl (SyntaxError (jstr ''Unexpected token in JSON''))
   \<and> cleaned smartQuotedReply = jstr ''{"answer":"x"}''
   \<and> parseResponse smartQuotedReply = Inr (JObject [(jstr ''answer'', JString (jstr ''x''))])
   \<and> (\<forall>w \<in> set (cleaned s). isWhiteSpace w \<longrightarrow> w = 0x20)
   \<and> (\<forall>u v. cleaned s \<noteq> u @ [0x20, 0x20] @ v)
   \<and> (cleaned s \<noteq> [] \<longrightarrow>
        \<not> isWhiteSpace (hd (cleaned s)) \<and> \<not> isWhiteSpace (last (cleaned s)))
   \<and> (0x60 \<notin> set a \<and> 0x60 \<notin> set b \<and> (c = 0x0D \<or> c = 0x0A) \<longrightarrow>
        cleaned (a @ [c] @ b) = cleaned (a @ b))
   \<and> removeMarkdown (jstr ''x```json  y'') = jstr ''xy''
   \<and> removeMarkdown (jstr ''x  ```y'') = jstr ''xy''
   \<and> removeMarkdown (jstr '' ```json'') = jstr ''json''
   \<and> replaceSmartQuotes [0x201C, 0x61, 0x201D] = [0x22, 0x61, 0x22]
   \<and> removeNewlines (jstr ''a'' @ [0x0D, 0x0A] @ jstr ''b'') = jstr ''ab''
   \<and> normalizeSpaces (jstr ''a '' @ [0x09, 0xA0] @ jstr '' b  '') = jstr ''a b ''
   \<and> trim ([0x0A] @ jstr ''  x y '' @ [0x09]) = jstr ''x y''
   \<and> cleaned (jstr ''a'' @ [0x0A] @ jstr ''b  c '') = jstr ''ab c''
   \<and> cleaned (jstr ''``'' @ [0x0A] @ jstr ''`'') = jstr ''```''
   \<and> JSON_parse lineFeedReply = Inl (SyntaxError (jstr ''Unexpected token in JSON''))
   \<and> cleaned lineFeedReply = jstr ''{"ab":1}''
   \<and> parseResponse lineFeedReply = Inr (JObject [(jstr ''ab'', JNumber 1)])
   \<and> JSON_parse messyReply = Inl (SyntaxError (jstr ''Unexpected token in JSON''))
   \<and> cleaned messyReply = jstr ''{"answer": "xy"}''
   \<and> parseResponse messyReply = Inr (JObject [(jstr ''answer'', JString (jstr ''xy''))])\<close>
proof -
  have p1: "parseResponse fencedReply = Inr (JObject [(jstr ''answer'', JString (jstr ''x''))])"
    by (simp add: parseResponse_second[OF JSON_parse_fencedReply] cleaned_fencedReply JSON_parse_answer_x)
  have p2: "parseResponse smartQuotedReply = Inr (JObject [(jstr ''answer'', JString (jstr ''x''))])"
    by (simp add: parseResponse_second[OF JSON_parse_smartQuotedReply] cleaned_smartQuotedReply JSON_parse_answer_x)
  have p3: "\<forall>parseError. JSON_parse s = Inl parseError \<longrightarrow>
         parseResponse s =
           (case JSON_parse (cleaned s) of
              Inr parsedResponse \<Rightarrow> Inr parsedResponse
            | Inl secondError \<Rightarrow> Inl (Error (jstr ''Could not parse response'')))"
    using parseResponse_second by blast
  have p4: "0x60 \<notin> set a \<and> 0x60 \<notin> set b \<and> (c = 0x0D \<or> c = 0x0A) \<longrightarrow>
        cleaned (a @ [c] @ b) = cleaned (a @ b)"
    using cleaned_line_break_deleted by blast
  have p0: "cleaned s = trim (normalizeSpaces (removeNewlines (replaceSmartQuotes (removeMarkdown s))))"
    by (rule cleaned_def)
  note general = p0 p3 cleaned_no_newline[of s, THEN conjunct1] cleaned_no_newline[of s, THEN conjunct2]
    cleaned_no_smart_quote[of s, THEN conjunct1] cleaned_no_smart_quote[of s, THEN conjunct2]
  note shape = cleaned_shape[of s, THEN conjunct1] cleaned_shape[of s, THEN conjunct2, THEN conjunct1]
    cleaned_shape[of s, THEN conjunct2, THEN conjunct2]
  show ?thesis
    by (intro conjI general shape p1 p2 p4 JSON_parse_fencedReply cleaned_fencedReply
        JSON_parse_smartQuotedReply cleaned_smartQuotedReply removeMarkdown_examples
        cleanup_step_examples cleaned_order_examples lineFeedReply_examples messyReply_examples)
qed

theorem repair_parse_pipeline_witness:
  \<open>JSON_parse fencedReply = Inl (SyntaxError (jstr ''Unexpected token in JSON''))
   \<and> parseResponse fencedReply =
       (case JSON_parse (cleaned fencedReply) of
          Inr parsedResponse \<Rightarrow> Inr parsedResponse
        | Inl secondError \<Rightarrow> Inl (Error (jstr ''Could not parse response'')))
   \<and> parseResponse fencedReply = Inr (JObject [(jstr ''answer'', JString (jstr ''x''))])
   \<and> cleaned fencedReply \<noteq> []
   \<and> \<not> isWhiteSpace (hd (cleaned fencedReply)) \<and> \<not> isWhiteSpace (last (cleaned fencedReply))
   \<and> 0x20 \<in> set (cleaned messyReply) \<and> isWhiteSpace 0x20
   \<and> 0x60 \<notin> set (jstr ''x'') \<and> 0x60 \<notin> set (jstr ''y'')
   \<and> cleaned (jstr ''x'' @ [0x0A] @ jstr ''y'') = cleaned (jstr ''x'' @ jstr ''y'')
   \<and> cleaned (jstr ''x'' @ jstr ''y'') = jstr ''xy''\<close>
proof -
  note t = repair_parse_pipeline [of fencedReply "jstr ''x''" "jstr ''y''" "0x0A"]
  have h: "JSON_parse fencedReply = Inl (SyntaxError (jstr ''Unexpected token in JSON''))"
    by code_simp
  from t have r: "\<forall>parseError. JSON_parse fencedReply = Inl parseError \<longrightarrow>
         parseResponse fencedReply =
           (case JSON_parse (cleaned fencedReply) of
              Inr parsedResponse \<Rightarrow> Inr parsedResponse
            | Inl secondError \<Rightarrow> Inl (Error (jstr ''Could not parse response'')))"
    and v: "parseResponse fencedReply = Inr (JObject [(jstr ''answer'', JString (jstr ''x''))])"
    and e: "cleaned fencedReply \<noteq> [] \<longrightarrow>
        \<not> isWhiteSpace (hd (cleaned fencedReply)) \<and> \<not> isWhiteSpace (last (cleaned fencedReply))"
    and l: "0x60 \<notin> set (jstr ''x'') \<and> 0x60 \<notin> set (jstr ''y'') \<and> ((0x0A :: jschar) = 0x0D \<or> (0x0A :: jschar) = 0x0A) \<longrightarrow>
        cleaned (jstr ''x'' @ [0x0A] @ jstr ''y'') = cleaned (jstr ''x'' @ jstr ''y'')"
    by blast+
  have n: "cleaned fencedReply \<noteq> []"
    by code_simp
  have b: "0x60 \<notin> set (jstr ''x'')" "0x60 \<notin> set (jstr ''y'')"
    by (simp_all add: jstr_def)
  have m: "0x20 \<in> set (cleaned messyReply)" "isWhiteSpace 0x20"
    "cleaned (jstr ''x'' @ jstr ''y'') = jstr ''xy''"
    by code_simp+
  from r h v e n l b m show ?thesis
    by blast
qed

section \<open>Filling the defaults\<close>

lemma tag_distinct:
  "jstr ''TECHNICAL_NO_DOCS'' \<noteq> jstr ''TECHNICAL_WITH_DOCS''"
  "jstr ''TECHNICAL_NO_DOCS'' \<noteq> jstr ''BILLING''"
  "jstr ''TECHNICAL_NO_DOCS'' \<noteq> jstr ''IRRELEVANT''"
  "jstr ''TECHNICAL_NO_DOCS'' \<noteq> jstr ''ERROR''"
  "jstr ''TECHNICAL_WITH_DOCS'' \<noteq> jstr ''BILLING''"
  "jstr ''TECHNICAL_WITH_DOCS'' \<noteq> jstr ''IRRELEVANT''"
  "jstr ''TECHNICAL_WITH_DOCS'' \<noteq> jstr ''ERROR''"
  by (simp_all add: jstr_def)

lemma handleTechnicalWithDocs_parsed:
  assumes "invoke w [systemPrompt, userPrompt query context] = Inr responseContent"
    and "parseResponse responseContent = Inr parsedResponse"
  shows "handleTechnicalWithDocs w query context =
           (case structuredResponse parsedResponse of
              Inr response \<Rightarrow> Inr response
            | Inl error \<Rightarrow> Inr handleTechnicalNoDocs)"
  using assms by (simp add: handleTechnicalWithDocs_def tryTechnicalWithDocs_def)

lemma parseResponse_direct:
  "JSON_parse s = Inr v \<Longrightarrow> parseResponse s = Inr v"
  by (simp add: parseResponse_def)

lemma structuredResponse_answer_x:
  "structuredResponse (JObject [(jstr ''answer'', JString (jstr ''x''))]) = Inr (JObject
     [(jstr ''type'', JString (jstr ''TECHNICAL_WITH_DOCS'')),
      (jstr ''priority'', JString (jstr ''HIGH - Documentation Available'')),
      (jstr ''responseTime'', JString (jstr ''Immediate - Using Available Documentation'')),
      (jstr ''answer'', JString (jstr ''x'')),
      (jstr ''confidence'', JNumber (95 / 100)),
      (jstr ''sourcesUsed'', JNumber 1),
      (jstr ''relevantDocs'', JArray [])])"
  by (simp add: structuredResponse_def readProp_def jstr_def)

text \<open>
  C3. If the model replies \<open>{"answer":"x"}\<close>, the synthesizer returns the record with
  \<open>type\<close> TECHNICAL_WITH_DOCS, the two fixed texts for \<open>priority\<close> and \<open>responseTime\<close>,
  \<open>answer\<close> equal to \<open>x\<close>, \<open>confidence\<close> 0.95, \<open>sourcesUsed\<close> 1 and \<open>relevantDocs\<close> empty.
  For every parsed reply from which a record is built, whatever fields it holds, the
  \<open>type\<close>, \<open>priority\<close> and \<open>responseTime\<close> of the returned record are the fixed literals.
\<close>

theorem default_filling:
  \<open>(invoke w [systemPrompt, userPrompt query context] = Inr (jstr ''{"answer":"x"}'') \<longrightarrow>
      handleTechnicalWithDocs w query context = Inr (JObject
        [(jstr ''type'', JString (jstr ''TECHNICAL_WITH_DOCS'')),
         (jstr ''priority'', JString (jstr ''HIGH - Documentation Available'')),
         (jstr ''responseTime'', JString (jstr ''Immediate - Using Available Documentation'')),
         (jstr ''answer'', JString (jstr ''x'')),
         (jstr ''confidence'', JNumber (95 / 100)),
         (jstr ''sourcesUsed'', JNumber 1),
         (jstr ''relevantDocs'', JArray [])]))
   \<and> (\<forall>responseContent parsedResponse.
         invoke w [systemPrompt, userPrompt query context] = Inr responseContent
         \<and> parseResponse responseContent = Inr parsedResponse
         \<and> truthy (readProp parsedResponse (jstr ''answer'')) \<longrightarrow>
         (\<exists>response. handleTechnicalWithDocs w query context = Inr response
            \<and> structuredResponse parsedResponse = Inr response
            \<and> getProp response (jstr ''type'') = Inr (JString (jstr ''TECHNICAL_WITH_DOCS''))
            \<and> getProp response (jstr ''priority'') = Inr (JString (jstr ''HIGH - Documentation Available''))
            \<and> getProp response (jstr ''responseTime'') =
                Inr (JString (jstr ''Immediate - Using Available Documentation''))))\<close>
proof (intro conjI impI allI)
  assume a: \<open>invoke w [systemPrompt, userPrompt query context] = Inr (jstr ''{"answer":"x"}'')\<close>
  show "handleTechnicalWithDocs w query context = Inr (JObject
        [(jstr ''type'', JString (jstr ''TECHNICAL_WITH_DOCS'')),
         (jstr ''priority'', JString (jstr ''HIGH - Documentation Available'')),
         (jstr ''responseTime'', JString (jstr ''Immediate - Using Available Documentation'')),
         (jstr ''answer'', JString (jstr ''x'')),
         (jstr ''confidence'', JNumber (95 / 100)),
         (jstr ''sourcesUsed'', JNumber 1),
         (jstr ''relevantDocs'', JArray [])])"
    by (simp add: handleTechnicalWithDocs_parsed[OF a parseResponse_direct[OF JSON_parse_answer_x]]
        structuredResponse_answer_x)
next
  fix responseContent parsedResponse
  assume h: "invoke w [systemPrompt, userPrompt query context] = Inr responseContent
         \<and> parseResponse responseContent = Inr parsedResponse
         \<and> truthy (readProp parsedResponse (jstr ''answer''))"
  then obtain response where r: "structuredResponse parsedResponse = Inr response"
    by (cases parsedResponse) (auto simp: structuredResponse_def readProp_def)
  with h have "handleTechnicalWithDocs w query context = Inr response"
    by (simp add: handleTechnicalWithDocs_parsed)
  with r structuredResponse_fields[OF r]
  show "\<exists>response. handleTechnicalWithDocs w query context = Inr response
            \<and> structuredResponse parsedResponse = Inr response
            \<and> getProp response (jstr ''type'') = Inr (JString (jstr ''TECHNICAL_WITH_DOCS''))
            \<and> getProp response (jstr ''priority'') = Inr (JString (jstr ''HIGH - Documentation Available''))
            \<and> getProp response (jstr ''responseTime'') =
                Inr (JString (jstr ''Immediate - Using Available Documentation''))"
    by blast
qed

lemma JSON_parse_overridden:
  \<open>JSON_parse (jstr ''{"type":"BILLING","priority":"LOW","answer":"x"}'') = Inr (JObject
     [(jstr ''type'', JString (jstr ''BILLING'')),
      (jstr ''priority'', JString (jstr ''LOW'')),
      (jstr ''answer'', JString (jstr ''x''))])\<close>
  by code_simp

theorem default_filling_witness:
  \<open>handleTechnicalWithDocs
      (stubServices (Inr []) (Inr (jstr ''YES'')) (Inr []) (Inr (jstr ''{"answer":"x"}'')))
      (jstr ''q'') [] = Inr (JObject
        [(jstr ''type'', JString (jstr ''TECHNICAL_WITH_DOCS'')),
         (jstr ''priority'', JString (jstr ''HIGH - Documentation Available'')),
         (jstr ''responseTime'', JString (jstr ''Immediate - Using Available Documentation'')),
         (jstr ''answer'', JString (jstr ''x'')),
         (jstr ''confidence'', JNumber (95 / 100)),
         (jstr ''sourcesUsed'', JNumber 1),
         (jstr ''relevantDocs'', JArray [])])
   \<and> (\<exists>response. handleTechnicalWithDocs
      (stubServices (Inr []) (Inr (jstr ''YES'')) (Inr [])
         (Inr (jstr ''{"type":"BILLING","priority":"LOW","answer":"x"}'')))
      (jstr ''q'') [] = Inr response
      \<and> getProp response (jstr ''type'') = Inr (JString (jstr ''TECHNICAL_WITH_DOCS''))
      \<and> getProp response (jstr ''priority'') = Inr (JString (jstr ''HIGH - Documentation Available'')))\<close>
proof -
  have t: "truthy (readProp (JObject
     [(jstr ''type'', JString (jstr ''BILLING'')),
      (jstr ''priority'', JString (jstr ''LOW'')),
      (jstr ''answer'', JString (jstr ''x''))]) (jstr ''answer''))"
    by (simp add: readProp_def jstr_def)
  show ?thesis
    using default_filling [of "stubServices (Inr []) (Inr (jstr ''YES'')) (Inr []) (Inr (jstr ''{\"answer\":\"x\"}''))"
          "jstr ''q''" "[]"]
      default_filling [of "stubServices (Inr []) (Inr (jstr ''YES'')) (Inr [])
         (Inr (jstr ''{\"type\":\"BILLING\",\"priority\":\"LOW\",\"answer\":\"x\"}''))" "jstr ''q''" "[]"]
      parseResponse_direct[OF JSON_parse_overridden] t
    by auto
qed

section \<open>The mandatory answer\<close>

lemma handleTechnicalWithDocs_unparsed:
  assumes "invoke w [systemPrompt, userPrompt query context] = Inr responseContent"
    and "parseResponse responseContent = Inl e"
  shows "handleTechnicalWithDocs w query context = Inr handleTechnicalNoDocs"
  using assms by (simp add: handleTechnicalWithDocs_def tryTechnicalWithDocs_def)

lemma handleTechnicalWithDocs_invoke_failed:
  assumes "invoke w [systemPrompt, userPrompt query context] = Inl e"
  shows "handleTechnicalWithDocs w query context = Inr handleTechnicalNoDocs"
  using assms by (simp add: handleTechnicalWithDocs_def tryTechnicalWithDocs_def)

lemma structuredResponse_falsy:
  assumes "\<not> truthy (readProp parsedResponse (jstr ''answer''))"
  shows "\<exists>e. structuredResponse parsedResponse = Inl e"
  using assms by (cases parsedResponse) (auto simp: structuredResponse_def readProp_def)

lemma handleTechnicalWithDocs_falsy:
  assumes "invoke w [systemPrompt, userPrompt query context] = Inr responseContent"
    and "parseResponse responseContent = Inr parsedResponse"
    and "\<not> truthy (readProp parsedResponse (jstr ''answer''))"
  shows "handleTechnicalWithDocs w query context = Inr handleTechnicalNoDocs"
  using structuredResponse_falsy[OF assms(3)]
  by (auto simp: handleTechnicalWithDocs_parsed[OF assms(1,2)])

lemma JSON_parse_confidence_only:
  \<open>JSON_parse (jstr ''{"confidence":0.8}'') = Inr (JObject [(jstr ''confidence'', JNumber (8 / 10))])\<close>
  by code_simp

lemma JSON_parse_not_json:
  "JSON_parse (jstr ''I cannot answer that.'') = Inl (SyntaxError (jstr ''Unexpected token in JSON''))"
  by code_simp

lemma cleaned_not_json:
  "cleaned (jstr ''I cannot answer that.'') = jstr ''I cannot answer that.''"
  by code_simp

text \<open>
  C4. If the parsed reply is a record without an \<open>answer\<close> field, as for the reply
  \<open>{"confidence":0.8}\<close>, the synthesizer does not throw: it returns the static
  TECHNICAL_NO_DOCS response. It returns the same response when the direct parse and
  the parse of the cleaned reply both fail.
\<close>

theorem missing_answer_fallback:
  \<open>(\<forall>responseContent properties.
       invoke w [systemPrompt, userPrompt query context] = Inr responseContent
       \<and> parseResponse responseContent = Inr (JObject properties)
       \<and> map_of properties (jstr ''answer'') = None \<longrightarrow>
       handleTechnicalWithDocs w query context = Inr handleTechnicalNoDocs)
   \<and> (invoke w [systemPrompt, userPrompt query context] = Inr (jstr ''{"confidence":0.8}'') \<longrightarrow>
       handleTechnicalWithDocs w query context = Inr handleTechnicalNoDocs)
   \<and> (\<forall>responseContent parseError secondError.
       invoke w [systemPrompt, userPrompt query context] = Inr responseContent
       \<and> JSON_parse responseContent = Inl parseError
       \<and> JSON_parse (cleaned responseContent) = Inl secondError \<longrightarrow>
       handleTechnicalWithDocs w query context = Inr handleTechnicalNoDocs)
   \<and> getProp handleTechnicalNoDocs (jstr ''type'') = Inr (JString (jstr ''TECHNICAL_NO_DOCS''))\<close>
proof (intro conjI impI allI)
  fix responseContent properties
  assume h: "invoke w [systemPrompt, userPrompt query context] = Inr responseContent
       \<and> parseResponse responseContent = Inr (JObject properties)
       \<and> map_of properties (jstr ''answer'') = None"
  then have "\<not> truthy (readProp (JObject properties) (jstr ''answer''))"
    by (simp add: readProp_def)
  with h show "handleTechnicalWithDocs w query context = Inr handleTechnicalNoDocs"
    using handleTechnicalWithDocs_falsy by blast
next
  assume a: \<open>invoke w [systemPrompt, userPrompt query context] = Inr (jstr ''{"confidence":0.8}'')\<close>
  have "\<not> truthy (readProp (JObject [(jstr ''confidence'', JNumber (8 / 10))]) (jstr ''answer''))"
    by (simp add: readProp_def jstr_def)
  then show "handleTechnicalWithDocs w query context = Inr handleTechnicalNoDocs"
    using handleTechnicalWithDocs_falsy[OF a parseResponse_direct[OF JSON_parse_confidence_only]]
    by blast
next
  fix responseContent parseError secondError
  assume h: "invoke w [systemPrompt, userPrompt query context] = Inr responseContent
       \<and> JSON_parse responseContent = Inl parseError
       \<and> JSON_parse (cleaned responseContent) = Inl secondError"
  then have "parseResponse responseContent = Inl (Error (jstr ''Could not parse response''))"
    by (simp add: parseResponse_def)
  with h show "handleTechnicalWithDocs w query context = Inr handleTechnicalNoDocs"
    using handleTechnicalWithDocs_unparsed by blast
next
  show "getProp handleTechnicalNoDocs (jstr ''type'') = Inr (JString (jstr ''TECHNICAL_NO_DOCS''))"
    by (rule type_handleTechnicalNoDocs)
qed

theorem missing_answer_fallback_witness:
  \<open>handleTechnicalWithDocs
      (stubServices (Inr []) (Inr (jstr ''YES'')) (Inr []) (Inr (jstr ''{"confidence":0.8}'')))
      (jstr ''q'') [] = Inr handleTechnicalNoDocs
   \<and> JSON_parse (jstr ''I cannot answer that.'') = Inl (SyntaxError (jstr ''Unexpected token in JSON''))
   \<and> JSON_parse (cleaned (jstr ''I cannot answer that.'')) = Inl (SyntaxError (jstr ''Unexpected token in JSON''))
   \<and> handleTechnicalWithDocs
      (stubServices (Inr []) (Inr (jstr ''YES'')) (Inr []) (Inr (jstr ''I cannot answer that.'')))
      (jstr ''q'') [] = Inr handleTechnicalNoDocs\<close>
proof -
  have p: "map_of [(jstr ''confidence'', JNumber (8 / 10))] (jstr ''answer'') = None"
    by (simp add: jstr_def)
  have c: "JSON_parse (cleaned (jstr ''I cannot answer that.'')) = Inl (SyntaxError (jstr ''Unexpected token in JSON''))"
    by (simp add: cleaned_not_json JSON_parse_not_json)
  show ?thesis
    using missing_answer_fallback [of "stubServices (Inr []) (Inr (jstr ''YES'')) (Inr []) (Inr (jstr ''{\"confidence\":0.8}''))"
          "jstr ''q''" "[]"]
      missing_answer_fallback [of "stubServices (Inr []) (Inr (jstr ''YES'')) (Inr []) (Inr (jstr ''I cannot answer that.''))"
          "jstr ''q''" "[]"]
      parseResponse_direct[OF JSON_parse_confidence_only] p c JSON_parse_not_json
    by auto
qed

section \<open>The range of the confidence\<close>

lemma JSON_parse_confidence_5:
  \<open>JSON_parse (jstr ''{"answer":"x","confidence":5}'') = Inr (JObject
     [(jstr ''answer'', JString (jstr ''x'')), (jstr ''confidence'', JNumber 5)])\<close>
  by code_simp

lemma structuredResponse_confidence_5:
  "structuredResponse (JObject
     [(jstr ''answer'', JString (jstr ''x'')), (jstr ''confidence'', JNumber 5)]) = Inr (JObject
     [(jstr ''type'', JString (jstr ''TECHNICAL_WITH_DOCS'')),
      (jstr ''priority'', JString (jstr ''HIGH - Documentation Available'')),
      (jstr ''responseTime'', JString (jstr ''Immediate - Using Available Documentation'')),
      (jstr ''answer'', JString (jstr ''x'')),
      (jstr ''confidence'', JNumber 5),
      (jstr ''sourcesUsed'', JNumber 1),
      (jstr ''relevantDocs'', JArray [])])"
  by (simp add: structuredResponse_def readProp_def jstr_def)

text \<open>
  C5. The specification says that the \<open>confidence\<close> of every TECHNICAL_WITH_DOCS record lies between
  0 and 1. The code copies any numeric \<open>confidence\<close> of the reply: when the documents are
  relevant and the model replies \<open>{"answer":"x","confidence":5}\<close>, \<open>askQuestion\<close> returns
  the TECHNICAL_WITH_DOCS record with \<open>confidence\<close> 5, which is above 1.
\<close>

theorem confidence_not_clamped:
  \<open>askQuestion id
      (stubServices (Inr []) (Inr (jstr ''YES'')) (Inr [])
         (Inr (jstr ''{"answer":"x","confidence":5}'')))
      (jstr ''q'') = Inr (JObject
        [(jstr ''type'', JString (jstr ''TECHNICAL_WITH_DOCS'')),
         (jstr ''priority'', JString (jstr ''HIGH - Documentation Available'')),
         (jstr ''responseTime'', JString (jstr ''Immediate - Using Available Documentation'')),
         (jstr ''answer'', JString (jstr ''x'')),
         (jstr ''confidence'', JNumber 5),
         (jstr ''sourcesUsed'', JNumber 1),
         (jstr ''relevantDocs'', JArray [])])
   \<and> \<not> (5 :: rat) \<le> 1\<close>
proof -
  have d: "getRelevantDocuments
      (stubServices (Inr []) (Inr (jstr ''YES'')) (Inr [])
         (Inr (jstr ''{\"answer\":\"x\",\"confidence\":5}''))) (jstr ''q'') = Inr []"
    by (simp add: getRelevantDocuments_def createRetriever_def)
  have y: "toUpperCase id (trim (jstr ''YES'')) = jstr ''YES''"
    by code_simp
  have c: "classifyQuery id
      (stubServices (Inr []) (Inr (jstr ''YES'')) (Inr [])
         (Inr (jstr ''{\"answer\":\"x\",\"confidence\":5}''))) (jstr ''q'') [] = Inr (jstr ''TECHNICAL_WITH_DOCS'')"
    by (simp add: classifyQuery_def checkDocumentRelevance_def y)
  have i: "invoke (stubServices (Inr []) (Inr (jstr ''YES'')) (Inr [])
         (Inr (jstr ''{\"answer\":\"x\",\"confidence\":5}''))) [systemPrompt, userPrompt (jstr ''q'') []]
       = Inr (jstr ''{\"answer\":\"x\",\"confidence\":5}'')"
    by simp
  show ?thesis
    by (simp add: askQuestion_def tryAskQuestion_def d c handleQuery_def
        handleTechnicalWithDocs_parsed[OF i parseResponse_direct[OF JSON_parse_confidence_5]]
        structuredResponse_confidence_5)
qed

section \<open>The classification\<close>

lemma toUpperCase_trim_examples:
  "toUpperCase U (trim (jstr ''YES'')) = jstr ''YES''"
  "toUpperCase U (trim (jstr '' yes\<newline>'')) = jstr ''YES''"
  "toUpperCase U (trim (jstr ''YES.'')) = jstr ''YES.''"
  "toUpperCase U (trim (jstr ''yes, it is'')) = jstr ''YES, IT IS''"
  "toUpperCase U (trim []) = []"
  "toUpperCase U (trim (jstr ''NO'')) = jstr ''NO''"
  "toUpperCase U (trim (jstr ''maybe'')) = jstr ''MAYBE''"
  "toUpperCase U (trim (jstr ''billing'')) = jstr ''BILLING''"
  by code_simp+

lemma checkDocumentRelevance_reply:
  "relevanceChain w query context = Inr relevanceCheck \<Longrightarrow>
   checkDocumentRelevance U w query context = Inr (toUpperCase U (trim relevanceCheck) = jstr ''YES'')"
  by (simp add: checkDocumentRelevance_def)

text \<open>
  C9. The relevance gate is true exactly when the chain gives a reply whose trimmed and
  upper-cased text is \<open>YES\<close>; for every other reply it is false. The replies \<open>YES.\<close> and
  \<open>yes, it is\<close> and the empty reply give false; \<open>yes\<close> between a space and a line feed
  gives true.
\<close>

theorem relevance_gate_exact_yes:
  "(checkDocumentRelevance U w query context = Inr True \<longleftrightarrow>
      (\<exists>relevanceCheck. relevanceChain w query context = Inr relevanceCheck
         \<and> toUpperCase U (trim relevanceCheck) = jstr ''YES''))
   \<and> (\<forall>relevanceCheck. relevanceChain w query context = Inr relevanceCheck
         \<and> toUpperCase U (trim relevanceCheck) \<noteq> jstr ''YES'' \<longrightarrow>
         checkDocumentRelevance U w query context = Inr False)
   \<and> checkDocumentRelevance U (stubServices (Inr []) (Inr (jstr ''YES'')) (Inr []) (Inr [])) query context
       = Inr True
   \<and> checkDocumentRelevance U
        (stubServices (Inr []) (Inr (jstr '' yes\<newline>'')) (Inr []) (Inr [])) query context
       = Inr True
   \<and> checkDocumentRelevance U (stubServices (Inr []) (Inr (jstr ''YES.'')) (Inr []) (Inr [])) query context
       = Inr False
   \<and> checkDocumentRelevance U (stubServices (Inr []) (Inr (jstr ''yes, it is'')) (Inr []) (Inr [])) query context
       = Inr False
   \<and> checkDocumentRelevance U (stubServices (Inr []) (Inr []) (Inr []) (Inr [])) query context
       = Inr False"
proof -
  have a: "checkDocumentRelevance U w query context = Inr True \<longleftrightarrow>
      (\<exists>relevanceCheck. relevanceChain w query context = Inr relevanceCheck
         \<and> toUpperCase U (trim relevanceCheck) = jstr ''YES'')"
    by (cases "relevanceChain w query context") (auto simp: checkDocumentRelevance_def)
  have b: "\<forall>relevanceCheck. relevanceChain w query context = Inr relevanceCheck
         \<and> toUpperCase U (trim relevanceCheck) \<noteq> jstr ''YES'' \<longrightarrow>
         checkDocumentRelevance U w query context = Inr False"
    by (simp add: checkDocumentRelevance_def)
  have c: "jstr ''YES.'' \<noteq> jstr ''YES''" "jstr ''YES, IT IS'' \<noteq> jstr ''YES''" "[] \<noteq> jstr ''YES''"
    by (simp_all add: jstr_def)
  show ?thesis
    using a b c by (simp add: checkDocumentRelevance_def toUpperCase_trim_examples)
qed

theorem relevance_gate_exact_yes_witness:
  "relevanceChain (stubServices (Inr []) (Inr (jstr ''NO'')) (Inr []) (Inr [])) (jstr ''q'') [] = Inr (jstr ''NO'')
   \<and> toUpperCase id (trim (jstr ''NO'')) \<noteq> jstr ''YES''
   \<and> checkDocumentRelevance id (stubServices (Inr []) (Inr (jstr ''NO'')) (Inr []) (Inr [])) (jstr ''q'') []
       = Inr False"
proof -
  have "jstr ''NO'' \<noteq> jstr ''YES''"
    by (simp add: jstr_def)
  then have h: "toUpperCase id (trim (jstr ''NO'')) \<noteq> jstr ''YES''"
    by (simp add: toUpperCase_trim_examples)
  have r: "relevanceChain (stubServices (Inr []) (Inr (jstr ''NO'')) (Inr []) (Inr [])) (jstr ''q'') [] = Inr (jstr ''NO'')"
    by simp
  from relevance_gate_exact_yes [of id "stubServices (Inr []) (Inr (jstr ''NO'')) (Inr []) (Inr [])" "jstr ''q''" "[]"]
  have "\<forall>relevanceCheck. relevanceChain (stubServices (Inr []) (Inr (jstr ''NO'')) (Inr []) (Inr [])) (jstr ''q'') [] = Inr relevanceCheck
         \<and> toUpperCase id (trim relevanceCheck) \<noteq> jstr ''YES'' \<longrightarrow>
         checkDocumentRelevance id (stubServices (Inr []) (Inr (jstr ''NO'')) (Inr []) (Inr [])) (jstr ''q'') [] = Inr False"
    by blast
  with h r show ?thesis
    by blast
qed

text \<open>
  C8. If the documents are retrieved and the relevance gate is true, \<open>askQuestion\<close> returns
  what the synthesis returns when it succeeds, a record of type TECHNICAL_WITH_DOCS, and
  the static TECHNICAL_NO_DOCS response when the synthesis throws. The \<open>type\<close> is neither
  BILLING nor IRRELEVANT.
\<close>

theorem relevant_query_is_technical:
  "getRelevantDocuments w query = Inr context
   \<and> checkDocumentRelevance U w query context = Inr True \<longrightarrow>
   (\<exists>response. askQuestion U w query = Inr response
      \<and> (getProp response (jstr ''type'') = Inr (JString (jstr ''TECHNICAL_WITH_DOCS''))
         \<or> getProp response (jstr ''type'') = Inr (JString (jstr ''TECHNICAL_NO_DOCS'')))
      \<and> getProp response (jstr ''type'') \<noteq> Inr (JString (jstr ''BILLING''))
      \<and> getProp response (jstr ''type'') \<noteq> Inr (JString (jstr ''IRRELEVANT''))
      \<and> (\<forall>r. tryTechnicalWithDocs w query context = Inr r \<longrightarrow>
            response = r \<and> getProp r (jstr ''type'') = Inr (JString (jstr ''TECHNICAL_WITH_DOCS'')))
      \<and> (\<forall>e. tryTechnicalWithDocs w query context = Inl e \<longrightarrow> response = handleTechnicalNoDocs))"
proof
  assume h: "getRelevantDocuments w query = Inr context
   \<and> checkDocumentRelevance U w query context = Inr True"
  then have q: "classifyQuery U w query context = Inr (jstr ''TECHNICAL_WITH_DOCS'')"
    by (simp add: classifyQuery_def)
  with h have a: "askQuestion U w query =
      (case handleTechnicalWithDocs w query context of
         Inr response \<Rightarrow> Inr response
       | Inl error \<Rightarrow> Inr (JObject
          [(jstr ''type'', JString (jstr ''ERROR'')),
           (jstr ''message'', JString (jstr ''An error occurred while processing your query.'')),
           (jstr ''error'', JString (message error))]))"
    by (simp add: askQuestion_def tryAskQuestion_def handleQuery_def)
  show "\<exists>response. askQuestion U w query = Inr response
      \<and> (getProp response (jstr ''type'') = Inr (JString (jstr ''TECHNICAL_WITH_DOCS''))
         \<or> getProp response (jstr ''type'') = Inr (JString (jstr ''TECHNICAL_NO_DOCS'')))
      \<and> getProp response (jstr ''type'') \<noteq> Inr (JString (jstr ''BILLING''))
      \<and> getProp response (jstr ''type'') \<noteq> Inr (JString (jstr ''IRRELEVANT''))
      \<and> (\<forall>r. tryTechnicalWithDocs w query context = Inr r \<longrightarrow>
            response = r \<and> getProp r (jstr ''type'') = Inr (JString (jstr ''TECHNICAL_WITH_DOCS'')))
      \<and> (\<forall>e. tryTechnicalWithDocs w query context = Inl e \<longrightarrow> response = handleTechnicalNoDocs)"
  proof (cases "tryTechnicalWithDocs w query context")
    case (Inl e)
    then have "askQuestion U w query = Inr handleTechnicalNoDocs"
      by (simp add: a handleTechnicalWithDocs_def)
    with Inl show ?thesis
      using tag_distinct by (simp add: type_handleTechnicalNoDocs)
  next
    case (Inr r)
    then have 1: "askQuestion U w query = Inr r"
      by (simp add: a handleTechnicalWithDocs_def)
    from Inr obtain p where "structuredResponse p = Inr r"
      by (auto simp: tryTechnicalWithDocs_def split: sum.splits)
    then have "getProp r (jstr ''type'') = Inr (JString (jstr ''TECHNICAL_WITH_DOCS''))"
      by (rule structuredResponse_fields(1))
    with 1 Inr show ?thesis
      using tag_distinct by simp
  qed
qed

theorem relevant_query_is_technical_witness:
  \<open>getRelevantDocuments
      (stubServices (Inr [jstr ''To reset your password, open Settings.''])
         (Inr (jstr ''YES'')) (Inr []) (Inr (jstr ''{"answer":"x"}'')))
      (jstr ''How do I reset my password?'') = Inr (jstr ''To reset your password, open Settings.'')
   \<and> checkDocumentRelevance id
      (stubServices (Inr [jstr ''To reset your password, open Settings.''])
         (Inr (jstr ''YES'')) (Inr []) (Inr (jstr ''{"answer":"x"}'')))
      (jstr ''How do I reset my password?'') (jstr ''To reset your password, open Settings.'') = Inr True
   \<and> (\<exists>response. askQuestion id
      (stubServices (Inr [jstr ''To reset your password, open Settings.''])
         (Inr (jstr ''YES'')) (Inr []) (Inr (jstr ''{"answer":"x"}'')))
      (jstr ''How do I reset my password?'') = Inr response
      \<and> (getProp response (jstr ''type'') = Inr (JString (jstr ''TECHNICAL_WITH_DOCS''))
         \<or> getProp response (jstr ''type'') = Inr (JString (jstr ''TECHNICAL_NO_DOCS''))))\<close>
proof -
  have d: \<open>getRelevantDocuments
      (stubServices (Inr [jstr ''To reset your password, open Settings.''])
         (Inr (jstr ''YES'')) (Inr []) (Inr (jstr ''{"answer":"x"}'')))
      (jstr ''How do I reset my password?'') = Inr (jstr ''To reset your password, open Settings.'')\<close>
    by (simp add: getRelevantDocuments_def createRetriever_def)
  have c: \<open>checkDocumentRelevance id
      (stubServices (Inr [jstr ''To reset your password, open Settings.''])
         (Inr (jstr ''YES'')) (Inr []) (Inr (jstr ''{"answer":"x"}'')))
      (jstr ''How do I reset my password?'') (jstr ''To reset your password, open Settings.'') = Inr True\<close>
    by (simp add: checkDocumentRelevance_def toUpperCase_trim_examples)
  show ?thesis
    using d c relevant_query_is_technical [of
        "stubServices (Inr [jstr ''To reset your password, open Settings.''])
         (Inr (jstr ''YES'')) (Inr []) (Inr (jstr ''{\"answer\":\"x\"}''))"
        "jstr ''How do I reset my password?''" "jstr ''To reset your password, open Settings.''" id]
    by blast
qed

text \<open>
  C6. The specification says that \<open>classifyQuery\<close> returns IRRELEVANT when the trimmed, upper-cased
  reply is none of the category tokens. It returns the token itself: with the reply
  \<open>maybe\<close> on a query whose documents are not relevant, the result is \<open>MAYBE\<close>.
\<close>

theorem classifyQuery_unrecognized_token:
  "classifyQuery id (stubServices (Inr []) (Inr (jstr ''NO'')) (Inr (jstr ''maybe'')) (Inr []))
     (jstr ''q'') [] = Inr (jstr ''MAYBE'')
   \<and> classifyQuery id (stubServices (Inr []) (Inr (jstr ''NO'')) (Inr (jstr ''maybe'')) (Inr []))
     (jstr ''q'') [] \<noteq> Inr (jstr ''IRRELEVANT'')"
proof -
  have "jstr ''NO'' \<noteq> jstr ''YES''" "jstr ''MAYBE'' \<noteq> jstr ''IRRELEVANT''"
    by (simp_all add: jstr_def)
  then show ?thesis
    by (simp add: classifyQuery_def checkDocumentRelevance_def toUpperCase_trim_examples)
qed

text \<open>
  C6, as the code has it. When the relevance gate is false, \<open>classifyQuery\<close> returns the
  trimmed and upper-cased reply of the classification chain as it is. \<open>handleQuery\<close>
  answers every query type other than TECHNICAL_WITH_DOCS, TECHNICAL_NO_DOCS and BILLING
  with the IRRELEVANT response, so for such a token \<open>askQuestion\<close> returns the IRRELEVANT
  response.
\<close>

theorem unrecognized_token_defaults_in_handleQuery:
  "(\<forall>relevanceCheck classification.
       relevanceChain w query context = Inr relevanceCheck
       \<and> toUpperCase U (trim relevanceCheck) \<noteq> jstr ''YES''
       \<and> classificationChain w query = Inr classification \<longrightarrow>
       classifyQuery U w query context = Inr (toUpperCase U (trim classification)))
   \<and> (queryType \<noteq> jstr ''TECHNICAL_WITH_DOCS'' \<and> queryType \<noteq> jstr ''TECHNICAL_NO_DOCS''
       \<and> queryType \<noteq> jstr ''BILLING'' \<longrightarrow>
       handleQuery w query queryType context = Inr handleIrrelevant)
   \<and> (\<forall>relevanceCheck classification.
       getRelevantDocuments w query = Inr context
       \<and> relevanceChain w query context = Inr relevanceCheck
       \<and> toUpperCase U (trim relevanceCheck) \<noteq> jstr ''YES''
       \<and> classificationChain w query = Inr classification
       \<and> toUpperCase U (trim classification) \<noteq> jstr ''TECHNICAL_WITH_DOCS''
       \<and> toUpperCase U (trim classification) \<noteq> jstr ''TECHNICAL_NO_DOCS''
       \<and> toUpperCase U (trim classification) \<noteq> jstr ''BILLING'' \<longrightarrow>
       askQuestion U w query = Inr handleIrrelevant)
   \<and> getProp handleIrrelevant (jstr ''type'') = Inr (JString (jstr ''IRRELEVANT''))"
  by (simp add: classifyQuery_def checkDocumentRelevance_def handleQuery_def askQuestion_def
      tryAskQuestion_def type_handleIrrelevant)

theorem unrecognized_token_defaults_in_handleQuery_witness:
  "getRelevantDocuments
     (stubServices (Inr []) (Inr (jstr ''NO'')) (Inr (jstr ''maybe'')) (Inr [])) (jstr ''q'') = Inr []
   \<and> toUpperCase id (trim (jstr ''NO'')) \<noteq> jstr ''YES''
   \<and> toUpperCase id (trim (jstr ''maybe'')) = jstr ''MAYBE''
   \<and> classifyQuery id (stubServices (Inr []) (Inr (jstr ''NO'')) (Inr (jstr ''maybe'')) (Inr []))
       (jstr ''q'') [] = Inr (jstr ''MAYBE'')
   \<and> handleQuery (stubServices (Inr []) (Inr (jstr ''NO'')) (Inr (jstr ''maybe'')) (Inr []))
       (jstr ''q'') (jstr ''MAYBE'') [] = Inr handleIrrelevant
   \<and> askQuestion id (stubServices (Inr []) (Inr (jstr ''NO'')) (Inr (jstr ''maybe'')) (Inr []))
       (jstr ''q'') = Inr handleIrrelevant"
proof -
  have d: "getRelevantDocuments
     (stubServices (Inr []) (Inr (jstr ''NO'')) (Inr (jstr ''maybe'')) (Inr [])) (jstr ''q'') = Inr []"
    by (simp add: getRelevantDocuments_def createRetriever_def)
  have n: "jstr ''NO'' \<noteq> jstr ''YES''" "jstr ''MAYBE'' \<noteq> jstr ''TECHNICAL_WITH_DOCS''"
    "jstr ''MAYBE'' \<noteq> jstr ''TECHNICAL_NO_DOCS''" "jstr ''MAYBE'' \<noteq> jstr ''BILLING''"
    by (simp_all add: jstr_def)
  show ?thesis
    using d n unrecognized_token_defaults_in_handleQuery [of
        "stubServices (Inr []) (Inr (jstr ''NO'')) (Inr (jstr ''maybe'')) (Inr [])"
        "jstr ''q''" "[]" id "jstr ''MAYBE''"]
    by (simp add: toUpperCase_trim_examples)
qed

section \<open>Failures of the synthesis\<close>

text \<open>
  C7. The specification says that a failed model call in the synthesizer surfaces as the ERROR
  shape. The call is inside the \<open>try\<close> of \<open>handleTechnicalWithDocs\<close>: when the documents
  are relevant and the model call throws, \<open>askQuestion\<close> returns the static
  TECHNICAL_NO_DOCS response, whose \<open>type\<close> is not ERROR.
\<close>

theorem model_failure_not_surfaced:
  "askQuestion id
     (stubServices (Inr []) (Inr (jstr ''YES'')) (Inr []) (Inl (Error (jstr ''timeout''))))
     (jstr ''q'') = Inr handleTechnicalNoDocs
   \<and> getProp handleTechnicalNoDocs (jstr ''type'') \<noteq> Inr (JString (jstr ''ERROR''))"
proof -
  have d: "getRelevantDocuments
     (stubServices (Inr []) (Inr (jstr ''YES'')) (Inr []) (Inl (Error (jstr ''timeout''))))
     (jstr ''q'') = Inr []"
    by (simp add: getRelevantDocuments_def createRetriever_def)
  have c: "classifyQuery id
     (stubServices (Inr []) (Inr (jstr ''YES'')) (Inr []) (Inl (Error (jstr ''timeout''))))
     (jstr ''q'') [] = Inr (jstr ''TECHNICAL_WITH_DOCS'')"
    by (simp add: classifyQuery_def checkDocumentRelevance_def toUpperCase_trim_examples)
  have "askQuestion id
     (stubServices (Inr []) (Inr (jstr ''YES'')) (Inr []) (Inl (Error (jstr ''timeout''))))
     (jstr ''q'') = Inr handleTechnicalNoDocs"
    by (simp add: askQuestion_def tryAskQuestion_def d c handleQuery_def
        handleTechnicalWithDocs_invoke_failed)
  then show ?thesis
    using tag_distinct by (simp add: type_handleTechnicalNoDocs)
qed

text \<open>
  C7, as the code has it. Every failure inside the synthesizer is recovered there: when
  the model call throws, when both parses of the reply fail, and when the parsed reply
  has no truthy \<open>answer\<close>, \<open>handleTechnicalWithDocs\<close> returns the static TECHNICAL_NO_DOCS
  response and does not throw.
\<close>

theorem synthesizer_recovers_every_failure:
  "(\<forall>e. invoke w [systemPrompt, userPrompt query context] = Inl e \<longrightarrow>
       handleTechnicalWithDocs w query context = Inr handleTechnicalNoDocs)
   \<and> (\<forall>responseContent parseError secondError.
       invoke w [systemPrompt, userPrompt query context] = Inr responseContent
       \<and> JSON_parse responseContent = Inl parseError
       \<and> JSON_parse (cleaned responseContent) = Inl secondError \<longrightarrow>
       handleTechnicalWithDocs w query context = Inr handleTechnicalNoDocs)
   \<and> (\<forall>responseContent parsedResponse.
       invoke w [systemPrompt, userPrompt query context] = Inr responseContent
       \<and> parseResponse responseContent = Inr parsedResponse
       \<and> \<not> truthy (readProp parsedResponse (jstr ''answer'')) \<longrightarrow>
       handleTechnicalWithDocs w query context = Inr handleTechnicalNoDocs)
   \<and> (\<forall>e. tryTechnicalWithDocs w query context = Inl e \<longrightarrow>
       handleTechnicalWithDocs w query context = Inr handleTechnicalNoDocs)
   \<and> (\<exists>response. handleTechnicalWithDocs w query context = Inr response)"
proof (intro conjI allI impI)
  fix e
  assume "invoke w [systemPrompt, userPrompt query context] = Inl e"
  then show "handleTechnicalWithDocs w query context = Inr handleTechnicalNoDocs"
    by (rule handleTechnicalWithDocs_invoke_failed)
next
  fix responseContent parseError secondError
  assume h: "invoke w [systemPrompt, userPrompt query context] = Inr responseContent
       \<and> JSON_parse responseContent = Inl parseError
       \<and> JSON_parse (cleaned responseContent) = Inl secondError"
  then have "parseResponse responseContent = Inl (Error (jstr ''Could not parse response''))"
    by (simp add: parseResponse_def)
  with h show "handleTechnicalWithDocs w query context = Inr handleTechnicalNoDocs"
    using handleTechnicalWithDocs_unparsed by blast
next
  fix responseContent parsedResponse
  assume "invoke w [systemPrompt, userPrompt query context] = Inr responseContent
       \<and> parseResponse responseContent = Inr parsedResponse
       \<and> \<not> truthy (readProp parsedResponse (jstr ''answer''))"
  then show "handleTechnicalWithDocs w query context = Inr handleTechnicalNoDocs"
    using handleTechnicalWithDocs_falsy by blast
next
  fix e
  assume "tryTechnicalWithDocs w query context = Inl e"
  then show "handleTechnicalWithDocs w query context = Inr handleTechnicalNoDocs"
    by (simp add: handleTechnicalWithDocs_def)
next
  show "\<exists>response. handleTechnicalWithDocs w query context = Inr response"
    using handleTechnicalWithDocs_type by blast
qed

theorem synthesizer_recovers_every_failure_witness:
  "invoke (stubServices (Inr []) (Inr (jstr ''YES'')) (Inr []) (Inl (Error (jstr ''timeout''))))
     [systemPrompt, userPrompt (jstr ''q'') []] = Inl (Error (jstr ''timeout''))
   \<and> handleTechnicalWithDocs
       (stubServices (Inr []) (Inr (jstr ''YES'')) (Inr []) (Inl (Error (jstr ''timeout''))))
       (jstr ''q'') [] = Inr handleTechnicalNoDocs
   \<and> handleTechnicalWithDocs
       (stubServices (Inr []) (Inr (jstr ''YES'')) (Inr []) (Inr (jstr ''I cannot answer that.'')))
       (jstr ''q'') [] = Inr handleTechnicalNoDocs"
proof -
  have i: "invoke (stubServices (Inr []) (Inr (jstr ''YES'')) (Inr []) (Inl (Error (jstr ''timeout''))))
     [systemPrompt, userPrompt (jstr ''q'') []] = Inl (Error (jstr ''timeout''))"
    by simp
  have c: "JSON_parse (cleaned (jstr ''I cannot answer that.'')) = Inl (SyntaxError (jstr ''Unexpected token in JSON''))"
    by (simp add: cleaned_not_json JSON_parse_not_json)
  show ?thesis
    using i c JSON_parse_not_json
      synthesizer_recovers_every_failure [of
        "stubServices (Inr []) (Inr (jstr ''YES'')) (Inr []) (Inl (Error (jstr ''timeout'')))"
        "jstr ''q''" "[]"]
      synthesizer_recovers_every_failure [of
        "stubServices (Inr []) (Inr (jstr ''YES'')) (Inr []) (Inr (jstr ''I cannot answer that.''))"
        "jstr ''q''" "[]"]
    by auto
qed

section \<open>Falsy answers\<close>

lemma JSON_parse_falsy_answers:
  \<open>JSON_parse (jstr ''{"answer":""}'') = Inr (JObject [(jstr ''answer'', JString [])])\<close>
  \<open>JSON_parse (jstr ''{"answer":0}'') = Inr (JObject [(jstr ''answer'', JNumber 0)])\<close>
  \<open>JSON_parse (jstr ''{"answer":null}'') = Inr (JObject [(jstr ''answer'', JNull)])\<close>
  \<open>JSON_parse (jstr ''{"answer":false}'') = Inr (JObject [(jstr ''answer'', JBool False)])\<close>
  by code_simp+

text \<open>
  C10. A parsed reply whose \<open>answer\<close> is falsy is treated as one without an answer: the
  synthesizer returns the static TECHNICAL_NO_DOCS response. This is so for the replies
  whose \<open>answer\<close> is the empty string, 0, \<open>null\<close> and \<open>false\<close>. Every record of type
  TECHNICAL_WITH_DOCS that the synthesizer returns has a truthy \<open>answer\<close>, which is
  therefore not the empty string.
\<close>

theorem falsy_answer_fallback:
  \<open>(\<forall>responseContent parsedResponse.
       invoke w [systemPrompt, userPrompt query context] = Inr responseContent
       \<and> parseResponse responseContent = Inr parsedResponse
       \<and> \<not> truthy (readProp parsedResponse (jstr ''answer'')) \<longrightarrow>
       handleTechnicalWithDocs w query context = Inr handleTechnicalNoDocs)
   \<and> (invoke w [systemPrompt, userPrompt query context] = Inr (jstr ''{"answer":""}'')
       \<or> invoke w [systemPrompt, userPrompt query context] = Inr (jstr ''{"answer":0}'')
       \<or> invoke w [systemPrompt, userPrompt query context] = Inr (jstr ''{"answer":null}'')
       \<or> invoke w [systemPrompt, userPrompt query context] = Inr (jstr ''{"answer":false}'') \<longrightarrow>
       handleTechnicalWithDocs w query context = Inr handleTechnicalNoDocs)
   \<and> (\<forall>response.
       handleTechnicalWithDocs w query context = Inr response
       \<and> getProp response (jstr ''type'') = Inr (JString (jstr ''TECHNICAL_WITH_DOCS'')) \<longrightarrow>
       (\<exists>answer. getProp response (jstr ''answer'') = Inr answer \<and> truthy answer
          \<and> answer \<noteq> JString []))\<close>
proof (intro conjI allI impI)
  fix responseContent parsedResponse
  assume "invoke w [systemPrompt, userPrompt query context] = Inr responseContent
       \<and> parseResponse responseContent = Inr parsedResponse
       \<and> \<not> truthy (readProp parsedResponse (jstr ''answer''))"
  then show "handleTechnicalWithDocs w query context = Inr handleTechnicalNoDocs"
    using handleTechnicalWithDocs_falsy by blast
next
  assume h: \<open>invoke w [systemPrompt, userPrompt query context] = Inr (jstr ''{"answer":""}'')
       \<or> invoke w [systemPrompt, userPrompt query context] = Inr (jstr ''{"answer":0}'')
       \<or> invoke w [systemPrompt, userPrompt query context] = Inr (jstr ''{"answer":null}'')
       \<or> invoke w [systemPrompt, userPrompt query context] = Inr (jstr ''{"answer":false}'')\<close>
  have f: "\<not> truthy (readProp (JObject [(jstr ''answer'', JString [])]) (jstr ''answer''))"
    "\<not> truthy (readProp (JObject [(jstr ''answer'', JNumber 0)]) (jstr ''answer''))"
    "\<not> truthy (readProp (JObject [(jstr ''answer'', JNull)]) (jstr ''answer''))"
    "\<not> truthy (readProp (JObject [(jstr ''answer'', JBool False)]) (jstr ''answer''))"
    by (simp_all add: readProp_def)
  from h show "handleTechnicalWithDocs w query context = Inr handleTechnicalNoDocs"
    using handleTechnicalWithDocs_falsy[OF _ parseResponse_direct[OF JSON_parse_falsy_answers(1)] f(1)]
      handleTechnicalWithDocs_falsy[OF _ parseResponse_direct[OF JSON_parse_falsy_answers(2)] f(2)]
      handleTechnicalWithDocs_falsy[OF _ parseResponse_direct[OF JSON_parse_falsy_answers(3)] f(3)]
      handleTechnicalWithDocs_falsy[OF _ parseResponse_direct[OF JSON_parse_falsy_answers(4)] f(4)]
    by blast
next
  fix response
  assume h: "handleTechnicalWithDocs w query context = Inr response
       \<and> getProp response (jstr ''type'') = Inr (JString (jstr ''TECHNICAL_WITH_DOCS''))"
  from handleTechnicalWithDocs_cases[of w query "context"]
  show "\<exists>answer. getProp response (jstr ''answer'') = Inr answer \<and> truthy answer
          \<and> answer \<noteq> JString []"
  proof
    assume "handleTechnicalWithDocs w query context = Inr handleTechnicalNoDocs \<and>
      (\<exists>e. tryTechnicalWithDocs w query context = Inl e)"
    with h have "response = handleTechnicalNoDocs"
      by simp
    with h have "JString (jstr ''TECHNICAL_NO_DOCS'') = JString (jstr ''TECHNICAL_WITH_DOCS'')"
      by (simp add: type_handleTechnicalNoDocs)
    then have False
      using tag_distinct(1) by simp
    then show ?thesis ..
  next
    assume "\<exists>content p r. invoke w [systemPrompt, userPrompt query context] = Inr content \<and>
        parseResponse content = Inr p \<and> structuredResponse p = Inr r \<and>
        handleTechnicalWithDocs w query context = Inr r"
    then obtain p where p: "structuredResponse p = Inr response"
      using h by auto
    have "truthy (readProp p (jstr ''answer''))"
      using structuredResponse_Inr(2)[OF p] .
    moreover have "getProp response (jstr ''answer'') = Inr (readProp p (jstr ''answer''))"
      using structuredResponse_fields(4)[OF p] .
    ultimately show ?thesis
      by auto
  qed
qed

theorem falsy_answer_fallback_witness:
  \<open>handleTechnicalWithDocs
      (stubServices (Inr []) (Inr (jstr ''YES'')) (Inr []) (Inr (jstr ''{"answer":""}'')))
      (jstr ''q'') [] = Inr handleTechnicalNoDocs
   \<and> (\<exists>response answer. handleTechnicalWithDocs
      (stubServices (Inr []) (Inr (jstr ''YES'')) (Inr []) (Inr (jstr ''{"answer":"x"}'')))
      (jstr ''q'') [] = Inr response
      \<and> getProp response (jstr ''type'') = Inr (JString (jstr ''TECHNICAL_WITH_DOCS''))
      \<and> getProp response (jstr ''answer'') = Inr answer \<and> truthy answer \<and> answer \<noteq> JString [])\<close>
proof -
  have i0: \<open>invoke (stubServices (Inr []) (Inr (jstr ''YES'')) (Inr []) (Inr (jstr ''{"answer":""}'')))
      [systemPrompt, userPrompt (jstr ''q'') []] = Inr (jstr ''{"answer":""}'')\<close>
    by simp
  have a: \<open>handleTechnicalWithDocs
      (stubServices (Inr []) (Inr (jstr ''YES'')) (Inr []) (Inr (jstr ''{"answer":""}'')))
      (jstr ''q'') [] = Inr handleTechnicalNoDocs\<close>
    using i0 falsy_answer_fallback [of
        "stubServices (Inr []) (Inr (jstr ''YES'')) (Inr []) (Inr (jstr ''{\"answer\":\"\"}''))"
        "jstr ''q''" "[]", THEN conjunct2, THEN conjunct1]
    by blast
  have i1: \<open>invoke (stubServices (Inr []) (Inr (jstr ''YES'')) (Inr []) (Inr (jstr ''{"answer":"x"}'')))
      [systemPrompt, userPrompt (jstr ''q'') []] = Inr (jstr ''{"answer":"x"}'')\<close>
    by simp
  have r: \<open>handleTechnicalWithDocs
      (stubServices (Inr []) (Inr (jstr ''YES'')) (Inr []) (Inr (jstr ''{"answer":"x"}'')))
      (jstr ''q'') [] = Inr (JObject
     [(jstr ''type'', JString (jstr ''TECHNICAL_WITH_DOCS'')),
      (jstr ''priority'', JString (jstr ''HIGH - Documentation Available'')),
      (jstr ''responseTime'', JString (jstr ''Immediate - Using Available Documentation'')),
      (jstr ''answer'', JString (jstr ''x'')),
      (jstr ''confidence'', JNumber (95 / 100)),
      (jstr ''sourcesUsed'', JNumber 1),
      (jstr ''relevantDocs'', JArray [])])\<close>
    by (simp add: handleTechnicalWithDocs_parsed[OF i1 parseResponse_direct[OF JSON_parse_answer_x]]
        structuredResponse_answer_x)
  have t: "getProp (JObject
     [(jstr ''type'', JString (jstr ''TECHNICAL_WITH_DOCS'')),
      (jstr ''priority'', JString (jstr ''HIGH - Documentation Available'')),
      (jstr ''responseTime'', JString (jstr ''Immediate - Using Available Documentation'')),
      (jstr ''answer'', JString (jstr ''x'')),
      (jstr ''confidence'', JNumber (95 / 100)),
      (jstr ''sourcesUsed'', JNumber 1),
      (jstr ''relevantDocs'', JArray [])]) (jstr ''type'') = Inr (JString (jstr ''TECHNICAL_WITH_DOCS''))"
    by simp
  have b: \<open>\<exists>response answer. handleTechnicalWithDocs
      (stubServices (Inr []) (Inr (jstr ''YES'')) (Inr []) (Inr (jstr ''{"answer":"x"}'')))
      (jstr ''q'') [] = Inr response
      \<and> getProp response (jstr ''type'') = Inr (JString (jstr ''TECHNICAL_WITH_DOCS''))
      \<and> getProp response (jstr ''answer'') = Inr answer \<and> truthy answer \<and> answer \<noteq> JString []\<close>
    using r t falsy_answer_fallback [of
        "stubServices (Inr []) (Inr (jstr ''YES'')) (Inr []) (Inr (jstr ''{\"answer\":\"x\"}''))"
        "jstr ''q''" "[]", THEN conjunct2, THEN conjunct2]
    by blast
  from a b show ?thesis
    by (rule conjI)
qed

section \<open>The earlier handler against the service\<close>

text \<open>
  The handler kept in \<open>rag.js\<close> agrees with the service on the three static query types
  and on a synthesis that succeeds. When the synthesis throws it returns a record of type
  TECHNICAL_NO_DOCS with the contact details of the static response and a message of its
  own, and for any other query type it returns \<open>undefined\<close>.
\<close>

lemma rag_handleQuery_static:
  "queryType = jstr ''TECHNICAL_NO_DOCS'' \<or> queryType = jstr ''BILLING''
     \<or> queryType = jstr ''IRRELEVANT'' \<Longrightarrow>
   rag_handleQuery w query queryType context = handleQuery w query queryType context"
  using tag_distinct by (auto simp: rag_handleQuery_def handleQuery_def)

lemma rag_handleQuery_synthesized:
  "tryTechnicalWithDocs w query context = Inr response \<Longrightarrow>
   rag_handleQuery w query (jstr ''TECHNICAL_WITH_DOCS'') context = Inr response
   \<and> handleQuery w query (jstr ''TECHNICAL_WITH_DOCS'') context = Inr response"
  by (simp add: rag_handleQuery_def handleQuery_def handleTechnicalWithDocs_def)

lemma rag_handleQuery_fallback:
  "tryTechnicalWithDocs w query context = Inl e \<Longrightarrow>
   \<exists>response. rag_handleQuery w query (jstr ''TECHNICAL_WITH_DOCS'') context = Inr response
     \<and> getProp response (jstr ''type'') = Inr (JString (jstr ''TECHNICAL_NO_DOCS''))
     \<and> getProp response (jstr ''contactInfo'') = getProp handleTechnicalNoDocs (jstr ''contactInfo'')
     \<and> getProp response (jstr ''ticketPriority'') = getProp handleTechnicalNoDocs (jstr ''ticketPriority'')"
  by (simp add: rag_handleQuery_def handleTechnicalNoDocs_def jstr_def)

lemma rag_handleQuery_no_default:
  "queryType \<noteq> jstr ''TECHNICAL_WITH_DOCS'' \<Longrightarrow> queryType \<noteq> jstr ''TECHNICAL_NO_DOCS'' \<Longrightarrow>
   queryType \<noteq> jstr ''BILLING'' \<Longrightarrow> queryType \<noteq> jstr ''IRRELEVANT'' \<Longrightarrow>
   rag_handleQuery w query queryType context = Inr JUndefined"
  by (simp add: rag_handleQuery_def)

end
